theory Spec2Isabelle
  imports Main "HOL-Library.List_Lexorder" "HOL-Library.Product_Lexorder"
begin

section \<open>Python strings\<close>

text \<open>
  A Python \<open>str\<close> is a sequence of Unicode code points. A code point is an integer and
  a string is a list of them; \<open>u\<close> turns an ASCII literal of the source into such a list.
  Strings compare lexicographically by code point, as Python compares them.
\<close>

type_synonym ustr = "int list"

definition u :: "string \<Rightarrow> ustr" where
  "u s = map of_char s"

abbreviation hyphen :: int where
  "hyphen \<equiv> 45"

text \<open>\<open>old.join(parts)\<close> and \<open>s.split(sep)\<close> for a one-character separator.\<close>

fun join :: "ustr \<Rightarrow> ustr list \<Rightarrow> ustr" where
  "join sep [] = []"
| "join sep [p] = p"
| "join sep (p # q # ps) = p @ sep @ join sep (q # ps)"

fun split :: "int \<Rightarrow> ustr \<Rightarrow> ustr list" where
  "split c [] = [[]]"
| "split c (x # xs) =
     (if x = c then [] # split c xs
      else (case split c xs of p # ps \<Rightarrow> (x # p) # ps | [] \<Rightarrow> [[x]]))"

text \<open>\<open>s.replace(old, new)\<close> for a one-character \<open>old\<close>.\<close>

definition replace1 :: "int \<Rightarrow> ustr \<Rightarrow> ustr \<Rightarrow> ustr" where
  "replace1 old new s = concat (map (\<lambda>c. if c = old then new else [c]) s)"

section \<open>entities\_scraper.py: name normalisation\<close>

text \<open>
  \<open>str.lower\<close> and \<open>str.isalnum\<close> read the Unicode tables of the Python runtime, which are
  not part of the repository: they are parameters. \<open>lower_at s i\<close> is the lower-case image
  of the character at position \<open>i\<close> of \<open>s\<close> (one character may become several, and the image
  of a capital sigma depends on its neighbours, hence the whole string as an argument);
  \<open>is_alnum c\<close> is \<open>c.isalnum()\<close>.
\<close>

record unicode_tables =
  lower_at :: "ustr \<Rightarrow> nat \<Rightarrow> ustr"
  is_alnum :: "int \<Rightarrow> bool"

definition str_lower :: "unicode_tables \<Rightarrow> ustr \<Rightarrow> ustr" where
  "str_lower T s = concat (map (lower_at T s) [0..<length s])"

text \<open>
  The \<open>replacements\<close> dictionary, in its insertion order (the order \<open>items()\<close> yields):
  \<open>ae\<close> ligature, o with stroke, a with ring, space, full stop, comma, plus.
\<close>

definition replacements :: "(int \<times> ustr) list" where
  "replacements =
     [(230, u ''ae''), (248, u ''o''), (229, u ''a''), (32, u ''-''),
      (46, []), (44, []), (43, u ''-og-'')]"

definition apply_replacements :: "ustr \<Rightarrow> ustr" where
  "apply_replacements s = foldl (\<lambda>name (old, new). replace1 old new name) s replacements"

text \<open>One \<open>name.replace('--', '-')\<close>: left to right, occurrences do not overlap.\<close>

fun replace_dd :: "ustr \<Rightarrow> ustr" where
  "replace_dd (a # b # xs) =
     (if a = hyphen \<and> b = hyphen then hyphen # replace_dd xs else a # replace_dd (b # xs))"
| "replace_dd xs = xs"

fun has_dd :: "ustr \<Rightarrow> bool" where
  "has_dd (a # b # xs) = ((a = hyphen \<and> b = hyphen) \<or> has_dd (b # xs))"
| "has_dd xs = False"

lemma length_replace_dd_le: "length (replace_dd s) \<le> length s"
  by (induction s rule: replace_dd.induct) auto

lemma length_replace_dd_less: "has_dd s \<Longrightarrow> length (replace_dd s) < length s"
proof (induction s rule: replace_dd.induct)
  case (1 a b xs)
  show ?case
  proof (cases "a = hyphen \<and> b = hyphen")
    case True
    have "length (replace_dd xs) \<le> length xs" by (rule length_replace_dd_le)
    with True show ?thesis by simp
  next
    case False
    with 1 show ?thesis by auto
  qed
qed simp_all

text \<open>The loop \<open>while '--' in name: name = name.replace('--', '-')\<close>.\<close>

function collapse_hyphens :: "ustr \<Rightarrow> ustr" where
  "collapse_hyphens s = (if has_dd s then collapse_hyphens (replace_dd s) else s)"
  by pat_completeness auto
termination
  by (relation "measure length") (auto simp: length_replace_dd_less)

declare collapse_hyphens.simps [simp del]

text \<open>\<open>name.strip('-')\<close>.\<close>

definition strip_hyphens :: "ustr \<Rightarrow> ustr" where
  "strip_hyphens s =
     rev (dropWhile (\<lambda>c. c = hyphen) (rev (dropWhile (\<lambda>c. c = hyphen) s)))"

definition normalize_name :: "unicode_tables \<Rightarrow> ustr \<Rightarrow> ustr" where
  "normalize_name T name =
     strip_hyphens (collapse_hyphens
       (filter (\<lambda>c. is_alnum T c \<or> c = hyphen) (apply_replacements (str_lower T name))))"

text \<open>
  What idempotence needs of the tables: a character is \<open>lower_fixed\<close> when \<open>str.lower\<close>
  leaves it alone wherever it stands, and the tables are \<open>lower_stable\<close> when every
  character \<open>str.lower\<close> produces is fixed, as are the ASCII letters and the hyphen the
  replacements insert. (Unicode's lower-case mappings map to lower-case or uncased
  characters.)
\<close>

definition lower_fixed :: "unicode_tables \<Rightarrow> int \<Rightarrow> bool" where
  "lower_fixed T d = (\<forall>t j. j < length t \<and> t ! j = d \<longrightarrow> lower_at T t j = [d])"

definition lower_stable :: "unicode_tables \<Rightarrow> bool" where
  "lower_stable T =
     ((\<forall>s i d. i < length s \<and> d \<in> set (lower_at T s i) \<longrightarrow> lower_fixed T d) \<and>
      (\<forall>d \<in> set (u ''aeog-''). lower_fixed T d))"

text \<open>
  The tables on ASCII, every other code point left alone and not alphanumeric: they agree
  with Python on ASCII names and serve to evaluate the model.
\<close>

definition ascii_tables :: unicode_tables where
  "ascii_tables =
     \<lparr>lower_at = (\<lambda>s i. [if 65 \<le> s ! i \<and> s ! i \<le> 90 then s ! i + 32 else s ! i]),
      is_alnum = (\<lambda>c. (48 \<le> c \<and> c \<le> 57) \<or> (65 \<le> c \<and> c \<le> 90) \<or> (97 \<le> c \<and> c \<le> 122))\<rparr>"

text \<open>The characters the replacements remove, and a string that \<open>strip('-')\<close> leaves alone.\<close>

definition replaced_chars :: "int set" where
  "replaced_chars = {230, 248, 229, 32, 46, 44, 43}"

definition no_edge_hyphen :: "ustr \<Rightarrow> bool" where
  "no_edge_hyphen s = (s = [] \<or> (hd s \<noteq> hyphen \<and> last s \<noteq> hyphen))"


section \<open>Python values\<close>

text \<open>The exceptions the three modules can raise, as values.\<close>

datatype py_error =
  KeyError | IndexError | TypeError | AttributeError | ValueError | JSONDecodeError
  | FileNotFoundError | FileExistsError | IsADirectoryError | NotADirectoryError
  | OverflowError

text \<open>
  What \<open>json.load\<close> and \<open>response.json()\<close> return: \<open>None\<close>, a \<open>bool\<close>, an \<open>int\<close>, a
  \<open>float\<close>, a \<open>str\<close>, a \<open>list\<close> or a \<open>dict\<close> with string keys. A dict is the list of its
  items in insertion order (its keys are distinct). A float is carried as the text
  \<open>repr\<close> gives for it (\<open>1.5\<close>, \<open>1e+16\<close>, \<open>nan\<close>, \<open>inf\<close>), which names it uniquely.
\<close>

datatype json =
  JNull | JBool bool | JInt int | JFloat ustr | JStr ustr
  | JArr "json list" | JObj "(ustr \<times> json) list"

text \<open>The decimal digits of a number that is not negative, and \<open>str(i)\<close> for an \<open>int\<close>.\<close>

function digits_of :: "int \<Rightarrow> ustr" where
  "digits_of n = (if n < 10 then [48 + n] else digits_of (n div 10) @ [48 + n mod 10])"
  by pat_completeness auto
termination
  by (relation "measure nat") auto

declare digits_of.simps [simp del]

definition str_int :: "int \<Rightarrow> ustr" where
  "str_int i = (if i < 0 then hyphen # digits_of (- i) else digits_of i)"

text \<open>
  \<open>str(v)\<close>, which an f-string applies to the value it formats. The \<open>repr\<close> of a list or a
  dict is a parameter.
\<close>

fun py_str :: "(json \<Rightarrow> ustr) \<Rightarrow> json \<Rightarrow> ustr" where
  "py_str container_repr JNull = u ''None''"
| "py_str container_repr (JBool b) = (if b then u ''True'' else u ''False'')"
| "py_str container_repr (JInt i) = str_int i"
| "py_str container_repr (JFloat t) = t"
| "py_str container_repr (JStr s) = s"
| "py_str container_repr v = container_repr v"

text \<open>Truth value of a JSON value (\<open>if not data\<close>, \<open>if kommune.get(...)\<close>).\<close>

fun truthy :: "json \<Rightarrow> bool" where
  "truthy JNull = False"
| "truthy (JBool b) = b"
| "truthy (JInt i) = (i \<noteq> 0)"
| "truthy (JFloat t) = (t \<noteq> u ''0.0'' \<and> t \<noteq> u ''-0.0'')"
| "truthy (JStr s) = (s \<noteq> [])"
| "truthy (JArr xs) = (xs \<noteq> [])"
| "truthy (JObj kvs) = (kvs \<noteq> [])"

text \<open>\<open>v[key]\<close> for a string key, \<open>v.get(key, default)\<close>, and \<open>for x in v\<close>.\<close>

fun subscript :: "json \<Rightarrow> ustr \<Rightarrow> py_error + json" where
  "subscript (JObj kvs) k = (case map_of kvs k of Some v \<Rightarrow> Inr v | None \<Rightarrow> Inl KeyError)"
| "subscript v k = Inl TypeError"

fun dict_get :: "json \<Rightarrow> ustr \<Rightarrow> json \<Rightarrow> py_error + json" where
  "dict_get (JObj kvs) k d = (case map_of kvs k of Some v \<Rightarrow> Inr v | None \<Rightarrow> Inr d)"
| "dict_get v k d = Inl AttributeError"

fun py_iter :: "json \<Rightarrow> py_error + json list" where
  "py_iter (JArr xs) = Inr xs"
| "py_iter (JObj kvs) = Inr (map (\<lambda>(k, v). JStr k) kvs)"
| "py_iter (JStr s) = Inr (map (\<lambda>c. JStr [c]) s)"
| "py_iter v = Inl TypeError"

text \<open>\<open>xs[i]\<close> for \<open>i \<ge> 0\<close>.\<close>

definition index :: "'a list \<Rightarrow> nat \<Rightarrow> py_error + 'a" where
  "index xs i = (if i < length xs then Inr (xs ! i) else Inl IndexError)"

section \<open>JSON text\<close>

text \<open>
  \<open>json.dumps(v, sort_keys=True)\<close> with the defaults of the library: separators \<open>", "\<close> and
  \<open>": "\<close>, \<open>ensure_ascii\<close>, and \<open>NaN\<close>, \<open>Infinity\<close>, \<open>-Infinity\<close> for the floats that are no
  numbers. A string is quoted, with \<open>"\<close>, the backslash and the control characters
  escaped and every character outside printable ASCII written \<open>\uXXXX\<close> (as a surrogate
  pair beyond the basic plane). The items of a dict are sorted by key.
\<close>

definition hexdigit :: "int \<Rightarrow> int" where
  "hexdigit n = (if n < 10 then 48 + n else 87 + n)"

definition hex4 :: "int \<Rightarrow> ustr" where
  "hex4 n = [hexdigit (n div 4096 mod 16), hexdigit (n div 256 mod 16),
             hexdigit (n div 16 mod 16), hexdigit (n mod 16)]"

definition escape_char :: "int \<Rightarrow> ustr" where
  "escape_char c =
     (if c = 34 then [92, 34]
      else if c = 92 then [92, 92]
      else if c = 10 then [92, 110]
      else if c = 13 then [92, 114]
      else if c = 9 then [92, 116]
      else if c = 8 then [92, 98]
      else if c = 12 then [92, 102]
      else if 32 \<le> c \<and> c \<le> 126 then [c]
      else if c < 65536 then [92, 117] @ hex4 c
      else [92, 117] @ hex4 (55296 + (c - 65536) div 1024 mod 1024)
           @ [92, 117] @ hex4 (56320 + (c - 65536) mod 1024))"

definition encode_str :: "ustr \<Rightarrow> ustr" where
  "encode_str s = 34 # concat (map escape_char s) @ [34]"

definition float_text :: "ustr \<Rightarrow> ustr" where
  "float_text t =
     (if t = u ''nan'' then u ''NaN''
      else if t = u ''inf'' then u ''Infinity''
      else if t = u ''-inf'' then u ''-Infinity''
      else t)"

lemma size_member [termination_simp]:
  "(k, v) \<in> set kvs \<Longrightarrow> size v < Suc (size_list (size_prod (\<lambda>x. 0) size) kvs)"
  by (induction kvs) auto

fun dumps :: "json \<Rightarrow> ustr" where
  "dumps JNull = u ''null''"
| "dumps (JBool b) = (if b then u ''true'' else u ''false'')"
| "dumps (JInt i) = str_int i"
| "dumps (JFloat t) = float_text t"
| "dumps (JStr s) = encode_str s"
| "dumps (JArr xs) =
     (if xs = [] then u ''[]'' else u ''['' @ join (u '', '') (map dumps xs) @ u '']'')"
| "dumps (JObj kvs) =
     (if kvs = [] then u ''{}''
      else u ''{''
           @ join (u '', '') (map (\<lambda>(k, v). encode_str k @ u '': '' @ dumps v) (sort_key fst kvs))
           @ u ''}'')"

section \<open>entities\_scraper.py: entity identifiers\<close>

text \<open>
  The library functions the scraper calls: the Unicode tables, \<open>urllib.parse.unquote\<close> and
  the \<open>repr\<close> of containers.
\<close>

record pylib =
  tables :: unicode_tables
  unquote :: "ustr \<Rightarrow> ustr"
  container_repr :: "json \<Rightarrow> ustr"

text \<open>
  \<open>unquote(d['hrefNavn'].split('/')[-1])\<close>, normalised. \<open>KeyError\<close> when the key is
  missing; \<open>TypeError\<close> when \<open>d\<close> is not a dict and \<open>AttributeError\<close> when the value is not a
  string (neither is caught by the \<open>except (KeyError, IndexError)\<close> of the callers).
\<close>

definition href_name :: "pylib \<Rightarrow> json \<Rightarrow> py_error + ustr" where
  "href_name L d =
     (case subscript d (u ''hrefNavn'') of
        Inl e \<Rightarrow> Inl e
      | Inr (JStr s) \<Rightarrow> Inr (normalize_name (tables L) (unquote L (last (split 47 s))))
      | Inr v \<Rightarrow> Inl AttributeError)"

text \<open>
  What \<open>except (KeyError, IndexError): return None\<close> makes of a body's outcome: these two
  errors become \<open>None\<close>, every other one is raised to the caller.
\<close>

definition catch_key_index :: "py_error + ustr \<Rightarrow> py_error + ustr option" where
  "catch_key_index r =
     (case r of
        Inr s \<Rightarrow> Inr (Some s)
      | Inl e \<Rightarrow> if e = KeyError \<or> e = IndexError then Inr None else Inl e)"

definition create_fylke_id :: "pylib \<Rightarrow> json \<Rightarrow> py_error + ustr option" where
  "create_fylke_id L fylke =
     catch_key_index
       (case subscript fylke (u ''nr'') of
          Inl e \<Rightarrow> Inl e
        | Inr nr \<Rightarrow>
            (case href_name L fylke of
               Inl e \<Rightarrow> Inl e
             | Inr normalized_name \<Rightarrow>
                 Inr (u ''fylke-'' @ py_str (container_repr L) nr @ u ''-'' @ normalized_name)))"

definition create_kommune_id :: "pylib \<Rightarrow> json \<Rightarrow> json \<Rightarrow> py_error + ustr option" where
  "create_kommune_id L fylke kommune =
     catch_key_index
       (case subscript fylke (u ''nr'') of
          Inl e \<Rightarrow> Inl e
        | Inr fylke_nr \<Rightarrow>
            (case subscript kommune (u ''nr'') of
               Inl e \<Rightarrow> Inl e
             | Inr kommune_nr \<Rightarrow>
                 (case href_name L kommune of
                    Inl e \<Rightarrow> Inl e
                  | Inr normalized_name \<Rightarrow>
                      Inr (u ''kommune-'' @ py_str (container_repr L) fylke_nr @ u ''-''
                           @ py_str (container_repr L) kommune_nr @ u ''-'' @ normalized_name))))"

definition create_krets_id :: "pylib \<Rightarrow> json \<Rightarrow> json \<Rightarrow> json \<Rightarrow> py_error + ustr option" where
  "create_krets_id L fylke kommune krets =
     catch_key_index
       (case subscript fylke (u ''nr'') of
          Inl e \<Rightarrow> Inl e
        | Inr fylke_nr \<Rightarrow>
            (case subscript kommune (u ''nr'') of
               Inl e \<Rightarrow> Inl e
             | Inr kommune_nr \<Rightarrow>
                 (case subscript krets (u ''nr'') of
                    Inl e \<Rightarrow> Inl e
                  | Inr krets_nr \<Rightarrow>
                      (case href_name L krets of
                         Inl e \<Rightarrow> Inl e
                       | Inr normalized_name \<Rightarrow>
                           Inr (u ''krets-'' @ py_str (container_repr L) fylke_nr @ u ''-''
                                @ py_str (container_repr L) kommune_nr @ u ''-''
                                @ py_str (container_repr L) krets_nr @ u ''-''
                                @ normalized_name)))))"

section \<open>monitor.py: the address of an entity\<close>

datatype tier = Nasjonalt | Fylke | Kommune | Krets

fun tier_name :: "tier \<Rightarrow> ustr" where
  "tier_name Nasjonalt = u ''nasjonalt''"
| "tier_name Fylke = u ''fylke''"
| "tier_name Kommune = u ''kommune''"
| "tier_name Krets = u ''krets''"

text \<open>
  The first half of \<open>process_entity\<close>: the endpoint of an entity, from the template of its
  tier. \<open>components\<close> are the dash-segments of the identifier without the last one.
\<close>

definition id_components :: "ustr \<Rightarrow> ustr list" where
  "id_components entity_id =
     (let base_id = join (u ''-'') (butlast (split hyphen entity_id))
      in split hyphen base_id)"

fun entity_url :: "tier \<Rightarrow> ustr \<Rightarrow> ustr \<Rightarrow> py_error + ustr" where
  "entity_url Nasjonalt entity_id year = Inr (u ''/'' @ year @ u ''/st'')"
| "entity_url Fylke entity_id year =
     (case index (id_components entity_id) 1 of
        Inl e \<Rightarrow> Inl e
      | Inr fylke_nr \<Rightarrow> Inr (u ''/'' @ year @ u ''/st/'' @ fylke_nr))"
| "entity_url Kommune entity_id year =
     (case index (id_components entity_id) 1 of
        Inl e \<Rightarrow> Inl e
      | Inr fylke_nr \<Rightarrow>
          (case index (id_components entity_id) 2 of
             Inl e \<Rightarrow> Inl e
           | Inr kommune_nr \<Rightarrow>
               Inr (u ''/'' @ year @ u ''/st/'' @ fylke_nr @ u ''/'' @ kommune_nr)))"
| "entity_url Krets entity_id year =
     (case index (id_components entity_id) 1 of
        Inl e \<Rightarrow> Inl e
      | Inr fylke_nr \<Rightarrow>
          (case index (id_components entity_id) 2 of
             Inl e \<Rightarrow> Inl e
           | Inr kommune_nr \<Rightarrow>
               (case index (id_components entity_id) 3 of
                  Inl e \<Rightarrow> Inl e
                | Inr krets_nr \<Rightarrow>
                    Inr (u ''/'' @ year @ u ''/st/'' @ fylke_nr @ u ''/'' @ kommune_nr
                         @ u ''/'' @ krets_nr))))"

text \<open>
  An instance of the library for evaluating the model: the ASCII tables, \<open>unquote\<close> on
  names without percent escapes, and three descriptors of the kind the API lists under
  \<open>_links.related\<close>.
\<close>

definition ascii_lib :: pylib where
  "ascii_lib = \<lparr>tables = ascii_tables, unquote = (\<lambda>s. s), container_repr = (\<lambda>v. [])\<rparr>"

definition fylke50 :: json where
  "fylke50 = JObj [(u ''nr'', JStr (u ''50'')),
                   (u ''hrefNavn'', JStr (u ''/2021/st/'' @ [83, 248, 114] @ u ''-Tr'' @ [248] @ u ''ndelag'')),
                   (u ''href'', JStr (u ''/2021/st/50''))]"

definition kommune5001 :: json where
  "kommune5001 = JObj [(u ''nr'', JStr (u ''5001'')),
                       (u ''hrefNavn'', JStr (u ''/2021/st/50/Trondheim'')),
                       (u ''href'', JStr (u ''/2021/st/50/5001'')),
                       (u ''harUnderordnet'', JBool True)]"

definition krets0001 :: json where
  "krets0001 = JObj [(u ''nr'', JStr (u ''0001'')),
                     (u ''hrefNavn'', JStr (u ''/2021/st/50/5001/Midtbyen + Lade'')),
                     (u ''href'', JStr (u ''/2021/st/50/5001/0001''))]"

section \<open>monitor.py: the polling loop\<close>

text \<open>
  \<open>self.schedules\<close>, in seconds. A reading of \<open>time.time()\<close> is a number of seconds; the loop
  only subtracts and compares readings.
\<close>

fun schedules :: "tier \<Rightarrow> int" where
  "schedules Nasjonalt = 300"
| "schedules Fylke = 600"
| "schedules Kommune = 900"
| "schedules Krets = 3600"

type_synonym last_run = "tier \<Rightarrow> int option"

text \<open>\<open>current_time - last_run.get(tier, 0) >= self.schedules[tier]\<close>.\<close>

definition due :: "last_run \<Rightarrow> int \<Rightarrow> tier \<Rightarrow> bool" where
  "due lr current_time t =
     (current_time - (case lr t of Some x \<Rightarrow> x | None \<Rightarrow> 0) \<ge> schedules t)"

text \<open>
  The loop is written over any \<open>process_entity\<close>: a function of the tier, the identifier and
  the year that changes a state \<open>'s\<close> or raises. An exception leaves \<open>run\<close>, which has no
  handler. \<open>process_entity\<close> splits the identifier at once, so an entry of the registry that
  is not a string raises \<open>AttributeError\<close>.
\<close>

type_synonym 's processor = "tier \<Rightarrow> ustr \<Rightarrow> ustr \<Rightarrow> 's \<Rightarrow> py_error + 's"

fun process_all :: "'s processor \<Rightarrow> tier \<Rightarrow> json list \<Rightarrow> ustr \<Rightarrow> 's \<Rightarrow> py_error + 's" where
  "process_all proc t [] year s = Inr s"
| "process_all proc t (JStr entity_id # ids) year s =
     (case proc t entity_id year s of
        Inl e \<Rightarrow> Inl e
      | Inr s' \<Rightarrow> process_all proc t ids year s')"
| "process_all proc t (v # ids) year s = Inl AttributeError"

text \<open>
  One \<open>if current_time - last_run.get(tier, 0) >= ...\<close> block of the loop body, for the tiers
  listed in the registry: process every identifier of \<open>year_config.get(tier, [])\<close>, then
  set \<open>last_run[tier] = current_time\<close>.
\<close>

definition poll_tier ::
  "'s processor \<Rightarrow> json \<Rightarrow> int \<Rightarrow> ustr \<Rightarrow> tier \<Rightarrow> last_run \<times> 's \<Rightarrow> py_error + last_run \<times> 's"
where
  "poll_tier proc year_config current_time year t st =
     (case st of (lr, s) \<Rightarrow>
        if due lr current_time t then
          (case dict_get year_config (tier_name t) (JArr []) of
             Inl e \<Rightarrow> Inl e
           | Inr listed \<Rightarrow>
               (case py_iter listed of
                  Inl e \<Rightarrow> Inl e
                | Inr ids \<Rightarrow>
                    (case process_all proc t ids year s of
                       Inl e \<Rightarrow> Inl e
                     | Inr s' \<Rightarrow> Inr (lr(t \<mapsto> current_time), s'))))
        else Inr st)"

text \<open>The national block: one entity, \<open>norge\<close>.\<close>

definition poll_nasjonalt ::
  "'s processor \<Rightarrow> int \<Rightarrow> ustr \<Rightarrow> last_run \<times> 's \<Rightarrow> py_error + last_run \<times> 's"
where
  "poll_nasjonalt proc current_time year st =
     (case st of (lr, s) \<Rightarrow>
        if due lr current_time Nasjonalt then
          (case proc Nasjonalt (u ''norge'') year s of
             Inl e \<Rightarrow> Inl e
           | Inr s' \<Rightarrow> Inr (lr(Nasjonalt \<mapsto> current_time), s'))
        else Inr st)"

text \<open>The body of \<open>for year in self.election_years\<close>.\<close>

definition poll_year ::
  "'s processor \<Rightarrow> json \<Rightarrow> int \<Rightarrow> ustr \<Rightarrow> last_run \<times> 's \<Rightarrow> py_error + last_run \<times> 's"
where
  "poll_year proc entities current_time year st =
     (case dict_get entities year (JObj []) of
        Inl e \<Rightarrow> Inl e
      | Inr year_config \<Rightarrow>
          (case poll_nasjonalt proc current_time year st of
             Inl e \<Rightarrow> Inl e
           | Inr st1 \<Rightarrow>
               (case poll_tier proc year_config current_time year Fylke st1 of
                  Inl e \<Rightarrow> Inl e
                | Inr st2 \<Rightarrow>
                    (case poll_tier proc year_config current_time year Kommune st2 of
                       Inl e \<Rightarrow> Inl e
                     | Inr st3 \<Rightarrow> poll_tier proc year_config current_time year Krets st3))))"

text \<open>
  One pass of \<open>while True\<close>, at the reading \<open>current_time\<close>: the years in order. \<open>run_loop\<close>
  is the loop over the readings of successive passes (the \<open>sleep(60)\<close> between them is the
  difference of the readings).
\<close>

fun poll_years ::
  "'s processor \<Rightarrow> json \<Rightarrow> int \<Rightarrow> ustr list \<Rightarrow> last_run \<times> 's \<Rightarrow> py_error + last_run \<times> 's"
where
  "poll_years proc entities current_time [] st = Inr st"
| "poll_years proc entities current_time (year # years) st =
     (case poll_year proc entities current_time year st of
        Inl e \<Rightarrow> Inl e
      | Inr st' \<Rightarrow> poll_years proc entities current_time years st')"

fun run_loop ::
  "'s processor \<Rightarrow> json \<Rightarrow> ustr list \<Rightarrow> int list \<Rightarrow> last_run \<times> 's \<Rightarrow> py_error + last_run \<times> 's"
where
  "run_loop proc entities election_years [] st = Inr st"
| "run_loop proc entities election_years (current_time # later) st =
     (case poll_years proc entities current_time election_years st of
        Inl e \<Rightarrow> Inl e
      | Inr st' \<Rightarrow> run_loop proc entities election_years later st')"

text \<open>
  A \<open>process_entity\<close> that only records its call, and a registry with one county, one
  municipality and one district in each of two years.
\<close>

definition record_call :: "(tier \<times> ustr \<times> ustr) list processor" where
  "record_call t entity_id year calls = Inr (calls @ [(t, entity_id, year)])"

definition two_year_registry :: json where
  "two_year_registry =
     JObj [(u ''2021'', JObj [(u ''fylke'', JArr [JStr (u ''fylke-03-oslo'')]),
                              (u ''kommune'', JArr [JStr (u ''kommune-03-0301-oslo'')]),
                              (u ''krets'', JArr [JStr (u ''krets-03-0301-0001-sentrum'')])]),
           (u ''2025'', JObj [(u ''fylke'', JArr [JStr (u ''fylke-03-oslo'')]),
                              (u ''kommune'', JArr [JStr (u ''kommune-03-0301-oslo'')]),
                              (u ''krets'', JArr [JStr (u ''krets-03-0301-0001-sentrum'')])])]"

section \<open>Paths and the file system\<close>

text \<open>
  A \<open>pathlib\<close> path is the list of its parts, the root \<open>/\<close> being a part of its own.
  \<open>path_div p s\<close> is \<open>p / s\<close>: the parts of \<open>s\<close> are appended, empty parts and \<open>.\<close> dropped,
  and an absolute \<open>s\<close> replaces \<open>p\<close>.
\<close>

type_synonym path = "ustr list"

abbreviation slash :: int where
  "slash \<equiv> 47"

definition parts_of :: "ustr \<Rightarrow> path" where
  "parts_of s =
     (if s \<noteq> [] \<and> hd s = slash then [[slash]] else [])
     @ filter (\<lambda>c. c \<noteq> [] \<and> c \<noteq> u ''.'') (split slash s)"

definition path_div :: "path \<Rightarrow> ustr \<Rightarrow> path" where
  "path_div p s = (if s \<noteq> [] \<and> hd s = slash then parts_of s else p @ parts_of s)"

definition path_name :: "path \<Rightarrow> ustr" where
  "path_name p = (if p = [] \<or> p = [[slash]] then [] else last p)"

definition path_parent :: "path \<Rightarrow> path" where
  "path_parent p = (if p = [[slash]] then p else butlast p)"

text \<open>\<open>Path.stem\<close>: the name without its last suffix.\<close>

definition rfind :: "int \<Rightarrow> ustr \<Rightarrow> nat option" where
  "rfind c s = (case filter (\<lambda>i. s ! i = c) (rev [0..<length s]) of [] \<Rightarrow> None | i # _ \<Rightarrow> Some i)"

definition stem_of :: "ustr \<Rightarrow> ustr" where
  "stem_of name =
     (case rfind 46 name of
        None \<Rightarrow> name
      | Some i \<Rightarrow> if 0 < i \<and> i < length name - 1 then take i name else name)"

text \<open>\<open>p.relative_to(base)\<close>.\<close>

definition relative_to :: "path \<Rightarrow> path \<Rightarrow> py_error + path" where
  "relative_to p base =
     (if take (length base) p = base then Inr (drop (length base) p) else Inl ValueError)"

definition starts_with :: "ustr \<Rightarrow> ustr \<Rightarrow> bool" where
  "starts_with pre s = (take (length pre) s = pre)"

definition ends_with :: "ustr \<Rightarrow> ustr \<Rightarrow> bool" where
  "ends_with suf s = (length suf \<le> length s \<and> drop (length s - length suf) s = suf)"

text \<open>
  The file system maps paths to nodes: a directory, a regular file with its content (the
  JSON value its text parses to, or \<open>None\<close> when the text is not JSON), or a symbolic link
  with its target, a path relative to the directory of the link. It is a list of entries;
  the first entry of a path is the one that counts. Paths are literal: no directory on the
  way to a file is a symbolic link (the program creates none). The file system refuses
  nothing for lack of permission or space.
\<close>

datatype node = Dir | File "json option" | Symlink path

type_synonym fs = "(path \<times> node) list"

text \<open>
  \<open>stat\<close> follows symbolic links, at most 40 of them (as Linux does); the working directory
  and the root always exist.
\<close>

fun stat_fuel :: "nat \<Rightarrow> fs \<Rightarrow> path \<Rightarrow> node option" where
  "stat_fuel 0 fs p = None"
| "stat_fuel (Suc n) fs p =
     (if p = [] \<or> p = [[slash]] then Some Dir
      else (case map_of fs p of
              None \<Rightarrow> None
            | Some (Symlink t) \<Rightarrow> stat_fuel n fs (path_parent p @ t)
            | Some nd \<Rightarrow> Some nd))"

definition stat :: "fs \<Rightarrow> path \<Rightarrow> node option" where
  "stat fs p = stat_fuel 41 fs p"

definition path_exists :: "fs \<Rightarrow> path \<Rightarrow> bool" where
  "path_exists fs p = (stat fs p \<noteq> None)"

definition is_dir :: "fs \<Rightarrow> path \<Rightarrow> bool" where
  "is_dir fs p = (stat fs p = Some Dir)"

definition is_symlink :: "fs \<Rightarrow> path \<Rightarrow> bool" where
  "is_symlink fs p = (case map_of fs p of Some (Symlink t) \<Rightarrow> True | _ \<Rightarrow> False)"

text \<open>
  The entries of a directory, and \<open>d.glob('*suffix')\<close>, \<open>d.glob('prefix*')\<close> and
  \<open>d.glob('*')\<close>: the entries whose name matches (names that start with a dot included, as
  \<open>pathlib\<close> has it), in the order the file system lists them. Nothing is listed under a
  path that is not a directory.
\<close>

definition listdir :: "fs \<Rightarrow> path \<Rightarrow> path list" where
  "listdir fs d =
     (if is_dir fs d
      then remdups (filter (\<lambda>p. p \<noteq> [] \<and> p \<noteq> [[slash]] \<and> butlast p = d) (map fst fs))
      else [])"

definition glob_suffix :: "fs \<Rightarrow> path \<Rightarrow> ustr \<Rightarrow> path list" where
  "glob_suffix fs d suf = filter (\<lambda>p. ends_with suf (last p)) (listdir fs d)"

definition glob_prefix :: "fs \<Rightarrow> path \<Rightarrow> ustr \<Rightarrow> path list" where
  "glob_prefix fs d pre = filter (\<lambda>p. starts_with pre (last p)) (listdir fs d)"

text \<open>\<open>p.unlink()\<close>.\<close>

definition remove_entry :: "path \<Rightarrow> fs \<Rightarrow> fs" where
  "remove_entry p fs = filter (\<lambda>e. fst e \<noteq> p) fs"

definition unlink :: "path \<Rightarrow> fs \<Rightarrow> py_error + fs" where
  "unlink p fs =
     (case map_of fs p of
        None \<Rightarrow> Inl FileNotFoundError
      | Some Dir \<Rightarrow> Inl IsADirectoryError
      | Some nd \<Rightarrow> Inr (remove_entry p fs))"

text \<open>
  \<open>open(p, 'w')\<close> followed by \<open>json.dump\<close>: the file holds the text of the value, which parses
  back to it. A link is written through.
\<close>

definition write_target :: "fs \<Rightarrow> path \<Rightarrow> path" where
  "write_target fs p =
     (case map_of fs p of Some (Symlink t) \<Rightarrow> path_parent p @ t | _ \<Rightarrow> p)"

definition write_json :: "path \<Rightarrow> json \<Rightarrow> fs \<Rightarrow> py_error + fs" where
  "write_json p v fs =
     (let q = write_target fs p in
      if \<not> is_dir fs (path_parent q) then Inl FileNotFoundError
      else (case map_of fs q of
              Some Dir \<Rightarrow> Inl IsADirectoryError
            | Some (Symlink t) \<Rightarrow> Inl FileNotFoundError
            | _ \<Rightarrow> Inr ((q, File (Some v)) # remove_entry q fs)))"

text \<open>\<open>open(p, 'r')\<close> followed by \<open>json.load\<close>.\<close>

definition read_json :: "fs \<Rightarrow> path \<Rightarrow> py_error + json" where
  "read_json fs p =
     (case stat fs p of
        None \<Rightarrow> Inl FileNotFoundError
      | Some Dir \<Rightarrow> Inl IsADirectoryError
      | Some (File None) \<Rightarrow> Inl JSONDecodeError
      | Some (File (Some v)) \<Rightarrow> Inr v
      | Some (Symlink t) \<Rightarrow> Inl FileNotFoundError)"

text \<open>\<open>p.mkdir(parents=True, exist_ok=True)\<close>: every missing directory down to \<open>p\<close>.\<close>

fun mkdirs :: "path list \<Rightarrow> fs \<Rightarrow> py_error + fs" where
  "mkdirs [] fs = Inr fs"
| "mkdirs (q # qs) fs =
     (case stat fs q of
        Some Dir \<Rightarrow> mkdirs qs fs
      | Some nd \<Rightarrow> Inl (if qs = [] then FileExistsError else NotADirectoryError)
      | None \<Rightarrow>
          (case map_of fs q of
             None \<Rightarrow> mkdirs qs ((q, Dir) # fs)
           | Some nd \<Rightarrow> Inl FileExistsError))"

definition mkdir_parents :: "path \<Rightarrow> fs \<Rightarrow> py_error + fs" where
  "mkdir_parents p fs = mkdirs (map (\<lambda>n. take n p) [1..<Suc (length p)]) fs"

text \<open>\<open>link.symlink_to(target)\<close>.\<close>

definition symlink_to :: "path \<Rightarrow> path \<Rightarrow> fs \<Rightarrow> py_error + fs" where
  "symlink_to link target fs =
     (if map_of fs link \<noteq> None then Inl FileExistsError
      else if \<not> is_dir fs (path_parent link) then Inl FileNotFoundError
      else Inr ((link, Symlink target) # fs))"

section \<open>Dates and snapshot names\<close>

text \<open>
  A naive \<open>datetime\<close>, which Python orders by its fields from the year down, and the
  timestamp \<open>strftime("%Y-%m-%d__%H%M")\<close> of a snapshot name (for the years 1000 to 9999,
  where \<open>%Y\<close> has four digits).
\<close>

record datetime =
  dt_year :: int
  dt_month :: int
  dt_day :: int
  dt_hour :: int
  dt_minute :: int
  dt_second :: int
  dt_microsecond :: int

definition zero_pad :: "nat \<Rightarrow> int \<Rightarrow> ustr" where
  "zero_pad w n = replicate (w - length (digits_of n)) 48 @ digits_of n"

definition strftime :: "datetime \<Rightarrow> ustr" where
  "strftime d =
     zero_pad 4 (dt_year d) @ u ''-'' @ zero_pad 2 (dt_month d) @ u ''-'' @ zero_pad 2 (dt_day d)
     @ u ''__'' @ zero_pad 2 (dt_hour d) @ zero_pad 2 (dt_minute d)"

text \<open>
  \<open>datetime.strptime(s, "%Y-%m-%d__%H%M")\<close>. The library compiles the format to the regular
  expression
  \<^verbatim>\<open>(\d\d\d\d)-(1[0-2]|0[1-9]|[1-9])-(3[0-1]|[1-2]\d|0[1-9]|[1-9]| [1-9])__(2[0-3]|[0-1]\d|\d)([0-5]\d|\d)\<close>,
  matches it at the start of the string, refuses a match that leaves text over, reads each
  field with \<open>int\<close>, and then refuses a date that does not exist; each failure is a
  \<open>ValueError\<close>. A field yields its readings in the order of its alternatives, so the first
  reading of the whole pattern is the match of the backtracking matcher.

  \<open>\d\<close> matches every decimal digit of Unicode, and \<open>int\<close> reads such a digit by its value;
  \<open>str.isdigit\<close> accepts the decimal digits and further digit characters. Below 128 these
  are the ASCII digits and nothing else. Beyond, they are what the Unicode tables of the
  runtime say, which are parameters here: the value of a decimal digit, and whether
  \<open>isdigit\<close> holds of a character.
\<close>

record digit_tables =
  decimal_beyond_ascii :: "int \<Rightarrow> int option"
  isdigit_beyond_ascii :: "int \<Rightarrow> bool"

definition decimal :: "digit_tables \<Rightarrow> int \<Rightarrow> int option" where
  "decimal t c =
     (if 48 \<le> c \<and> c \<le> 57 then Some (c - 48)
      else if c < 128 then None
      else decimal_beyond_ascii t c)"

definition is_digit :: "digit_tables \<Rightarrow> int \<Rightarrow> bool" where
  "is_digit t c = (if c < 128 then 48 \<le> c \<and> c \<le> 57 else isdigit_beyond_ascii t c)"

text \<open>A character class \<open>[lo-hi]\<close> of ASCII digits, with the value of the digit it matches.\<close>

definition between :: "int \<Rightarrow> int \<Rightarrow> int \<Rightarrow> int option" where
  "between lo hi c = (if lo \<le> c \<and> c \<le> hi then Some (c - 48) else None)"

definition two_chars ::
  "(int \<Rightarrow> int option) \<Rightarrow> (int \<Rightarrow> int option) \<Rightarrow> ustr \<Rightarrow> (int \<times> ustr) list"
where
  "two_chars P Q s =
     (case s of
        a # b # r \<Rightarrow>
          (case P a of
             None \<Rightarrow> []
           | Some x \<Rightarrow> (case Q b of None \<Rightarrow> [] | Some y \<Rightarrow> [(10 * x + y, r)]))
      | _ \<Rightarrow> [])"

definition one_char :: "(int \<Rightarrow> int option) \<Rightarrow> ustr \<Rightarrow> (int \<times> ustr) list" where
  "one_char P s =
     (case s of a # r \<Rightarrow> (case P a of None \<Rightarrow> [] | Some x \<Rightarrow> [(x, r)]) | _ \<Rightarrow> [])"

definition literal :: "int \<Rightarrow> ustr \<Rightarrow> ustr list" where
  "literal c s = (case s of a # r \<Rightarrow> if a = c then [r] else [] | _ \<Rightarrow> [])"

definition field_Y :: "digit_tables \<Rightarrow> ustr \<Rightarrow> (int \<times> ustr) list" where
  "field_Y t s =
     (case s of
        a # b # c # d # r \<Rightarrow>
          (case (decimal t a, decimal t b, decimal t c, decimal t d) of
             (Some x3, Some x2, Some x1, Some x0) \<Rightarrow>
               [(1000 * x3 + 100 * x2 + 10 * x1 + x0, r)]
           | _ \<Rightarrow> [])
      | _ \<Rightarrow> [])"

definition field_m :: "ustr \<Rightarrow> (int \<times> ustr) list" where
  "field_m s =
     two_chars (between 49 49) (between 48 50) s @ two_chars (between 48 48) (between 49 57) s
     @ one_char (between 49 57) s"

definition field_d :: "digit_tables \<Rightarrow> ustr \<Rightarrow> (int \<times> ustr) list" where
  "field_d t s =
     two_chars (between 51 51) (between 48 49) s @ two_chars (between 49 50) (decimal t) s
     @ two_chars (between 48 48) (between 49 57) s @ one_char (between 49 57) s
     @ concat (map (one_char (between 49 57)) (literal 32 s))"

definition field_H :: "digit_tables \<Rightarrow> ustr \<Rightarrow> (int \<times> ustr) list" where
  "field_H t s =
     two_chars (between 50 50) (between 48 51) s @ two_chars (between 48 49) (decimal t) s
     @ one_char (decimal t) s"

definition field_M :: "digit_tables \<Rightarrow> ustr \<Rightarrow> (int \<times> ustr) list" where
  "field_M t s = two_chars (between 48 53) (decimal t) s @ one_char (decimal t) s"

definition timestamp_matches ::
  "digit_tables \<Rightarrow> ustr \<Rightarrow> ((int \<times> int \<times> int \<times> int \<times> int) \<times> ustr) list"
where
  "timestamp_matches t s =
     [((y, m, d, h, mi), r9).
        (y, r1) \<leftarrow> field_Y t s, r2 \<leftarrow> literal hyphen r1,
        (m, r3) \<leftarrow> field_m r2, r4 \<leftarrow> literal hyphen r3,
        (d, r5) \<leftarrow> field_d t r4, r6 \<leftarrow> literal 95 r5, r7 \<leftarrow> literal 95 r6,
        (h, r8) \<leftarrow> field_H t r7, (mi, r9) \<leftarrow> field_M t r8]"

definition is_leap :: "int \<Rightarrow> bool" where
  "is_leap y = (y mod 4 = 0 \<and> (y mod 400 = 0 \<or> y mod 100 \<noteq> 0))"

definition days_in_month :: "int \<Rightarrow> int \<Rightarrow> int" where
  "days_in_month y m =
     (if m = 2 \<and> is_leap y then 29
      else [31, 28, 31, 30, 31, 30, 31, 31, 30, 31, 30, 31] ! nat (m - 1))"

definition strptime :: "digit_tables \<Rightarrow> ustr \<Rightarrow> py_error + datetime" where
  "strptime t s =
     (case timestamp_matches t s of
        [] \<Rightarrow> Inl ValueError
      | ((y, m, d, h, mi), rest) # _ \<Rightarrow>
          if rest \<noteq> [] then Inl ValueError
          else if y < 1 \<or> days_in_month y m < d then Inl ValueError
          else Inr \<lparr>dt_year = y, dt_month = m, dt_day = d, dt_hour = h, dt_minute = mi,
                    dt_second = 0, dt_microsecond = 0\<rparr>)"

text \<open>
  \<open>timestamp >= datetime.now() - timedelta(days=n)\<close>. Subtracting days moves the ordinal of
  the date (the number of the day, counted from 1 January of the year 1) and keeps the
  time of day; it raises \<open>OverflowError\<close> before the year 1. Datetimes are ordered as the
  pairs of their ordinal and their time of day.
\<close>

definition days_before_year :: "int \<Rightarrow> int" where
  "days_before_year y = (y - 1) * 365 + (y - 1) div 4 - (y - 1) div 100 + (y - 1) div 400"

definition days_before_month :: "int \<Rightarrow> int \<Rightarrow> int" where
  "days_before_month y m = sum_list (map (days_in_month y) [1..m - 1])"

definition toordinal :: "datetime \<Rightarrow> int" where
  "toordinal d =
     days_before_year (dt_year d) + days_before_month (dt_year d) (dt_month d) + dt_day d"

definition time_of_day :: "datetime \<Rightarrow> int \<times> int \<times> int \<times> int" where
  "time_of_day d = (dt_hour d, dt_minute d, dt_second d, dt_microsecond d)"

definition not_before_cutoff :: "datetime \<Rightarrow> datetime \<Rightarrow> nat \<Rightarrow> py_error + bool" where
  "not_before_cutoff timestamp now n =
     (if toordinal now - int n < 1 then Inl OverflowError
      else Inr (toordinal timestamp > toordinal now - int n
                \<or> (toordinal timestamp = toordinal now - int n
                    \<and> \<not> time_of_day timestamp < time_of_day now)))"

section \<open>cleanup.py: the retention manager\<close>

text \<open>\<open>self.retention_periods\<close>: a number of days, \<open>'all'\<close> or \<open>'latest'\<close>.\<close>

datatype retention = Days nat | KeepAll | KeepLatest

fun retention_periods :: "bool \<Rightarrow> tier \<Rightarrow> retention" where
  "retention_periods True Nasjonalt = Days 365"
| "retention_periods True Fylke = Days 180"
| "retention_periods True Kommune = Days 90"
| "retention_periods True Krets = Days 30"
| "retention_periods False Nasjonalt = KeepAll"
| "retention_periods False Fylke = KeepLatest"
| "retention_periods False Kommune = KeepLatest"
| "retention_periods False Krets = KeepLatest"

definition is_election_active :: "datetime \<Rightarrow> bool" where
  "is_election_active timestamp = (dt_month timestamp = 9 \<or> dt_month timestamp = 10)"

text \<open>
  \<open>get_snapshots\<close>: the \<open>*.json\<close> entries of the entity directory other than
  \<open>{directory name}.json\<close>, sorted by name.
\<close>

definition get_snapshots :: "fs \<Rightarrow> path \<Rightarrow> path list" where
  "get_snapshots fs entity_path =
     (if \<not> path_exists fs entity_path then []
      else sort_key path_name
             (filter (\<lambda>f. path_name f \<noteq> path_name entity_path @ u ''.json'')
                (glob_suffix fs entity_path (u ''.json''))))"

text \<open>
  \<open>should_retain_snapshot\<close>, with the digit tables of the runtime and at the clock reading
  \<open>now\<close> (one reading serves a whole run of the cleanup). A name that is no timestamp is
  retained; so is every snapshot under \<open>'all'\<close> and under \<open>'latest'\<close>.
\<close>

definition should_retain_snapshot :: "digit_tables \<Rightarrow> datetime \<Rightarrow> path \<Rightarrow> tier \<Rightarrow> bool \<Rightarrow> py_error + bool" where
  "should_retain_snapshot digits now snapshot entity_type is_active =
     (case strptime digits (stem_of (path_name snapshot)) of
        Inl e \<Rightarrow> Inr True
      | Inr timestamp \<Rightarrow>
          (case retention_periods is_active entity_type of
             KeepAll \<Rightarrow> Inr True
           | KeepLatest \<Rightarrow> Inr True
           | Days n \<Rightarrow> not_before_cutoff timestamp now n))"

text \<open>
  The loop of \<open>cleanup_entity\<close> over \<open>snapshots[:-1]\<close>. The result is the file system the
  loop leaves and the exception that ended it, if one did.
\<close>

fun remove_unretained ::
  "digit_tables \<Rightarrow> datetime \<Rightarrow> tier \<Rightarrow> bool \<Rightarrow> path list \<Rightarrow> fs \<Rightarrow> fs \<times> py_error option"
where
  "remove_unretained digits now entity_type is_active [] fs = (fs, None)"
| "remove_unretained digits now entity_type is_active (snapshot # rest) fs =
     (case should_retain_snapshot digits now snapshot entity_type is_active of
        Inl e \<Rightarrow> (fs, Some e)
      | Inr True \<Rightarrow> remove_unretained digits now entity_type is_active rest fs
      | Inr False \<Rightarrow>
          (case unlink snapshot fs of
             Inl e \<Rightarrow> (fs, Some e)
           | Inr fs' \<Rightarrow> remove_unretained digits now entity_type is_active rest fs'))"

definition cleanup_entity :: "digit_tables \<Rightarrow> datetime \<Rightarrow> path \<Rightarrow> tier \<Rightarrow> fs \<Rightarrow> fs \<times> py_error option" where
  "cleanup_entity digits now entity_path entity_type fs =
     (let snapshots = get_snapshots fs entity_path in
      if snapshots = [] then (fs, None)
      else remove_unretained digits now entity_type (is_election_active now) (butlast snapshots) fs)"

text \<open>\<open>for d in base.glob(prefix + '*'): if d.is_dir(): self.cleanup_entity(d, tier)\<close>.\<close>

fun cleanup_each :: "digit_tables \<Rightarrow> datetime \<Rightarrow> tier \<Rightarrow> path list \<Rightarrow> fs \<Rightarrow> fs \<times> py_error option" where
  "cleanup_each digits now entity_type [] fs = (fs, None)"
| "cleanup_each digits now entity_type (d # ds) fs =
     (if is_dir fs d then
        (case cleanup_entity digits now d entity_type fs of
           (fs', Some e) \<Rightarrow> (fs', Some e)
         | (fs', None) \<Rightarrow> cleanup_each digits now entity_type ds fs')
      else cleanup_each digits now entity_type ds fs)"

text \<open>
  The directories \<open>cleanup_year\<close> hands to \<open>cleanup_entity\<close> besides \<open>nasjonalt/norge\<close>, by
  tier: the matches of the three globs.
\<close>

definition swept_dirs :: "fs \<Rightarrow> path \<Rightarrow> tier \<Rightarrow> path list" where
  "swept_dirs fs year_path t =
     (case t of
        Nasjonalt \<Rightarrow> [path_div (path_div year_path (u ''nasjonalt'')) (u ''norge'')]
      | Fylke \<Rightarrow> glob_prefix fs (path_div year_path (u ''fylke'')) (u ''fylke-'')
      | Kommune \<Rightarrow> glob_prefix fs (path_div year_path (u ''kommune'')) (u ''kommune-'')
      | Krets \<Rightarrow>
          glob_prefix fs (path_div (path_div year_path (u ''kommune'')) (u ''krets'')) (u ''krets-''))"

definition cleanup_year :: "digit_tables \<Rightarrow> datetime \<Rightarrow> path \<Rightarrow> ustr \<Rightarrow> fs \<Rightarrow> fs \<times> py_error option" where
  "cleanup_year digits now data_path year fs =
     (let year_path = path_div data_path year in
      if \<not> path_exists fs year_path then (fs, None)
      else
        (case cleanup_entity digits now (path_div (path_div year_path (u ''nasjonalt'')) (u ''norge''))
                Nasjonalt fs of
           (fs1, Some e) \<Rightarrow> (fs1, Some e)
         | (fs1, None) \<Rightarrow>
             (case cleanup_each digits now Fylke (swept_dirs fs1 year_path Fylke) fs1 of
                (fs2, Some e) \<Rightarrow> (fs2, Some e)
              | (fs2, None) \<Rightarrow>
                  (case cleanup_each digits now Kommune (swept_dirs fs2 year_path Kommune) fs2 of
                     (fs3, Some e) \<Rightarrow> (fs3, Some e)
                   | (fs3, None) \<Rightarrow>
                       cleanup_each digits now Krets (swept_dirs fs3 year_path Krets) fs3))))"

text \<open>
  \<open>DataRetentionManager.run\<close>: every directory of the data path whose name \<open>isdigit\<close> holds
  of is a year.
\<close>

fun cleanup_years :: "digit_tables \<Rightarrow> datetime \<Rightarrow> path \<Rightarrow> path list \<Rightarrow> fs \<Rightarrow> fs \<times> py_error option" where
  "cleanup_years digits now data_path [] fs = (fs, None)"
| "cleanup_years digits now data_path (year_dir # rest) fs =
     (if is_dir fs year_dir \<and> path_name year_dir \<noteq> [] \<and> list_all (is_digit digits) (path_name year_dir)
      then
        (case cleanup_year digits now data_path (path_name year_dir) fs of
           (fs', Some e) \<Rightarrow> (fs', Some e)
         | (fs', None) \<Rightarrow> cleanup_years digits now data_path rest fs')
      else cleanup_years digits now data_path rest fs)"

definition cleanup_run :: "digit_tables \<Rightarrow> datetime \<Rightarrow> path \<Rightarrow> fs \<Rightarrow> fs \<times> py_error option" where
  "cleanup_run digits now data_path fs = cleanup_years digits now data_path (listdir fs data_path) fs"

section \<open>monitor.py: change detection and snapshots\<close>

text \<open>
  \<open>clean_data\<close> returns its argument: the statements after its \<open>return data\<close> are never
  reached.
\<close>

definition clean_data :: "json \<Rightarrow> json" where
  "clean_data data = data"

definition has_meaningful_changes :: "json \<Rightarrow> json \<Rightarrow> bool" where
  "has_meaningful_changes old_data new_data =
     (dumps (clean_data old_data) \<noteq> dumps (clean_data new_data))"

text \<open>
  The directory of an entity and the path of its latest pointer,
  \<open>entity_path.parent / f"{entity_path.name}.json"\<close>.
\<close>

definition entity_dir :: "path \<Rightarrow> tier \<Rightarrow> ustr \<Rightarrow> ustr \<Rightarrow> path" where
  "entity_dir data_path entity_type entity_id year =
     path_div (path_div (path_div data_path year) (tier_name entity_type))
       (if entity_type = Nasjonalt then u ''norge'' else entity_id)"

definition latest_link_of :: "path \<Rightarrow> path" where
  "latest_link_of entity_path =
     path_div (path_parent entity_path) (path_name entity_path @ u ''.json'')"

text \<open>\<open>_save_snapshot\<close>. An exception ends the program (\<open>run\<close> has no handler).\<close>

definition save_snapshot :: "json \<Rightarrow> path \<Rightarrow> ustr \<Rightarrow> fs \<Rightarrow> py_error + fs" where
  "save_snapshot data entity_path timestamp fs =
     (case mkdir_parents entity_path fs of
        Inl e \<Rightarrow> Inl e
      | Inr fs1 \<Rightarrow>
          (let snapshot_path = path_div entity_path (timestamp @ u ''.json'') in
           case write_json snapshot_path data fs1 of
             Inl e \<Rightarrow> Inl e
           | Inr fs2 \<Rightarrow>
               (let symlink_path = latest_link_of entity_path in
                case (if path_exists fs2 symlink_path then unlink symlink_path fs2 else Inr fs2) of
                  Inl e \<Rightarrow> Inl e
                | Inr fs3 \<Rightarrow>
                    (case relative_to snapshot_path (path_parent symlink_path) of
                       Inl e \<Rightarrow> Inl e
                     | Inr target \<Rightarrow> symlink_to symlink_path target fs3))))"

text \<open>
  \<open>process_entity\<close>. \<open>api\<close> is the remote API at the moment of the call: what
  \<open>_fetch_data\<close> returns for an endpoint once its retries are over, \<open>None\<close> for a failure.
  \<open>now\<close> is the reading of \<open>datetime.now()\<close>.
\<close>

definition process_entity ::
  "(ustr \<Rightarrow> json option) \<Rightarrow> datetime \<Rightarrow> path \<Rightarrow> tier \<Rightarrow> ustr \<Rightarrow> ustr \<Rightarrow> fs \<Rightarrow> py_error + fs"
where
  "process_entity api now data_path entity_type entity_id year fs =
     (case entity_url entity_type entity_id year of
        Inl e \<Rightarrow> Inl e
      | Inr url \<Rightarrow>
          (let entity_path = entity_dir data_path entity_type entity_id year in
           case api url of
             None \<Rightarrow> Inr fs
           | Some data \<Rightarrow>
               if \<not> truthy data then Inr fs
               else
                 (let timestamp = strftime now;
                      latest_link = latest_link_of entity_path
                  in if path_exists fs latest_link \<and> is_symlink fs latest_link then
                       (case read_json fs latest_link of
                          Inl e \<Rightarrow> Inl e
                        | Inr previous_data \<Rightarrow>
                            if has_meaningful_changes previous_data data
                            then save_snapshot data entity_path timestamp fs
                            else Inr fs)
                     else save_snapshot data entity_path timestamp fs)))"

text \<open>
  A store for evaluating the cleanup: the directory of one county with five snapshots
  and its latest pointer, a second store with two snapshots, and two clock readings, one
  outside the election months and one inside.
\<close>

definition oslo_dir :: path where
  "oslo_dir = [u ''data'', u ''2021'', u ''fylke'', u ''fylke-03-oslo'']"

definition oslo_snapshot :: "ustr \<Rightarrow> path \<times> node" where
  "oslo_snapshot name = (oslo_dir @ [name], File (Some (JObj [(u ''stemmer'', JInt 1)])))"

definition oslo_store :: fs where
  "oslo_store =
     [([u ''data''], Dir), ([u ''data'', u ''2021''], Dir),
      ([u ''data'', u ''2021'', u ''fylke''], Dir), (oslo_dir, Dir),
      oslo_snapshot (u ''2021-09-13__2100.json''), oslo_snapshot (u ''2021-09-13__2110.json''),
      oslo_snapshot (u ''2021-09-13__2120.json''), oslo_snapshot (u ''2021-09-14__0300.json''),
      oslo_snapshot (u ''2021-09-17__1200.json''),
      ([u ''data'', u ''2021'', u ''fylke'', u ''fylke-03-oslo.json''],
       Symlink [u ''fylke-03-oslo'', u ''2021-09-17__1200.json''])]"


definition march_2022 :: datetime where
  "march_2022 = \<lparr>dt_year = 2022, dt_month = 3, dt_day = 15, dt_hour = 4, dt_minute = 0,
                  dt_second = 0, dt_microsecond = 0\<rparr>"

definition september_2022 :: datetime where
  "september_2022 = \<lparr>dt_year = 2022, dt_month = 9, dt_day = 20, dt_hour = 4, dt_minute = 0,
                      dt_second = 0, dt_microsecond = 0\<rparr>"

text \<open>A file name whose stem \<open>strptime\<close> accepts.\<close>

definition parseable :: "digit_tables \<Rightarrow> ustr \<Rightarrow> bool" where
  "parseable t name = (case strptime t (stem_of name) of Inr d \<Rightarrow> True | Inl e \<Rightarrow> False)"

section \<open>monitor.py: the directories of a store\<close>

text \<open>\<open>_init_directories\<close>: four directories under every election year.\<close>

fun mkdir_each :: "path list \<Rightarrow> fs \<Rightarrow> py_error + fs" where
  "mkdir_each [] fs = Inr fs"
| "mkdir_each (p # ps) fs =
     (case mkdir_parents p fs of Inl e \<Rightarrow> Inl e | Inr fs' \<Rightarrow> mkdir_each ps fs')"

definition init_directories :: "path \<Rightarrow> ustr list \<Rightarrow> fs \<Rightarrow> py_error + fs" where
  "init_directories data_path election_years fs =
     mkdir_each
       (concat (map (\<lambda>year. map (path_div (path_div data_path year))
                                 [u ''nasjonalt/norge'', u ''fylke'', u ''kommune'', u ''kommune/krets''])
                    election_years))
       fs"

text \<open>
  A district polled twice, in September 2021, by a Monitor that starts on an empty disk:
  the API at the two moments, the clock readings, and the stores the Monitor leaves.
\<close>

definition sentrum_id :: ustr where
  "sentrum_id = u ''krets-03-0301-0001-sentrum''"

definition api_serving :: "ustr \<Rightarrow> json \<Rightarrow> ustr \<Rightarrow> json option" where
  "api_serving url data = (\<lambda>x. if x = url then Some data else None)"

definition votes :: "int \<Rightarrow> json" where
  "votes n = JObj [(u ''stemmer'', JInt n)]"

definition sept_13_2021 :: datetime where
  "sept_13_2021 = \<lparr>dt_year = 2021, dt_month = 9, dt_day = 13, dt_hour = 21, dt_minute = 0,
                    dt_second = 12, dt_microsecond = 0\<rparr>"

definition sept_14_2021 :: datetime where
  "sept_14_2021 = \<lparr>dt_year = 2021, dt_month = 9, dt_day = 14, dt_hour = 3, dt_minute = 0,
                    dt_second = 40, dt_microsecond = 0\<rparr>"

definition sentrum_dir :: path where
  "sentrum_dir = [u ''data'', u ''2021'', u ''krets'', sentrum_id]"

definition store_initial :: fs where
  "store_initial =
     [([u ''data'', u ''2021'', u ''kommune'', u ''krets''], Dir),
      ([u ''data'', u ''2021'', u ''kommune''], Dir),
      ([u ''data'', u ''2021'', u ''fylke''], Dir),
      ([u ''data'', u ''2021'', u ''nasjonalt'', u ''norge''], Dir),
      ([u ''data'', u ''2021'', u ''nasjonalt''], Dir),
      ([u ''data'', u ''2021''], Dir),
      ([u ''data''], Dir)]"

definition store_first :: fs where
  "store_first =
     ([u ''data'', u ''2021'', u ''krets'', sentrum_id @ u ''.json''],
        Symlink [sentrum_id, u ''2021-09-13__2100.json''])
     # (sentrum_dir @ [u ''2021-09-13__2100.json''], File (Some (votes 10)))
     # (sentrum_dir, Dir)
     # ([u ''data'', u ''2021'', u ''krets''], Dir)
     # store_initial"

definition store_second :: fs where
  "store_second =
     ([u ''data'', u ''2021'', u ''krets'', sentrum_id @ u ''.json''],
        Symlink [sentrum_id, u ''2021-09-14__0300.json''])
     # (sentrum_dir @ [u ''2021-09-14__0300.json''], File (Some (votes 25)))
     # (sentrum_dir @ [u ''2021-09-13__2100.json''], File (Some (votes 10)))
     # (sentrum_dir, Dir)
     # ([u ''data'', u ''2021'', u ''krets''], Dir)
     # store_initial"

section \<open>entities\_scraper.py: discovery\<close>

text \<open>
  \<open>self.entities\<close>: for each year, in insertion order, the lists of the three tiers. The
  sets \<open>existing_fylke\<close>, \<open>existing_kommune\<close> and \<open>existing_krets\<close> start as the sets of
  these lists and receive every identifier the lists receive, so that membership in a set
  is membership in its list.
\<close>

record year_entities =
  ent_fylke :: "ustr list"
  ent_kommune :: "ustr list"
  ent_krets :: "ustr list"

type_synonym registry = "(ustr \<times> year_entities) list"

text \<open>
  The remote API: what \<open>_fetch_data\<close> returns, once its retries are over, for the address
  that follows the base address; \<open>None\<close> for a failure.
\<close>

type_synonym api = "ustr \<Rightarrow> json option"

text \<open>\<open>data.get('_links', {}).get('related', [])\<close>, as the list a \<open>for\<close> loop runs over.\<close>

definition links_related :: "json \<Rightarrow> py_error + json list" where
  "links_related data =
     (case dict_get data (u ''_links'') (JObj []) of
        Inl e \<Rightarrow> Inl e
      | Inr links \<Rightarrow>
          (case dict_get links (u ''related'') (JArr []) of
             Inl e \<Rightarrow> Inl e
           | Inr related \<Rightarrow> py_iter related))"

text \<open>The loop over the districts of a municipality; the state is the list of district IDs.\<close>

fun scrape_krets :: "pylib \<Rightarrow> json \<Rightarrow> json \<Rightarrow> json list \<Rightarrow> ustr list \<Rightarrow> py_error + ustr list" where
  "scrape_krets L fylke kommune [] krets_ids = Inr krets_ids"
| "scrape_krets L fylke kommune (krets # rest) krets_ids =
     (case create_krets_id L fylke kommune krets of
        Inl e \<Rightarrow> Inl e
      | Inr None \<Rightarrow> scrape_krets L fylke kommune rest krets_ids
      | Inr (Some krets_id) \<Rightarrow>
          if krets_id \<noteq> [] \<and> krets_id \<notin> set krets_ids
          then scrape_krets L fylke kommune rest (krets_ids @ [krets_id])
          else scrape_krets L fylke kommune rest krets_ids)"

text \<open>
  What the loop over the municipalities does for a municipality that is new: recurse
  into its districts when \<open>harUnderordnet\<close> is set and the fetch succeeds.
\<close>

definition scrape_kommune_krets :: "pylib \<Rightarrow> api \<Rightarrow> json \<Rightarrow> json \<Rightarrow> ustr list \<Rightarrow> py_error + ustr list" where
  "scrape_kommune_krets L fetch fylke kommune krets_ids =
     (case dict_get kommune (u ''harUnderordnet'') (JBool False) of
        Inl e \<Rightarrow> Inl e
      | Inr flag \<Rightarrow>
          if \<not> truthy flag then Inr krets_ids
          else
            (case subscript kommune (u ''href'') of
               Inl e \<Rightarrow> Inl e
             | Inr href \<Rightarrow>
                 (case fetch (py_str (container_repr L) href) of
                    None \<Rightarrow> Inr krets_ids
                  | Some krets_data \<Rightarrow>
                      if \<not> truthy krets_data then Inr krets_ids
                      else
                        (case links_related krets_data of
                           Inl e \<Rightarrow> Inl e
                         | Inr related \<Rightarrow> scrape_krets L fylke kommune related krets_ids))))"

fun scrape_kommuner ::
  "pylib \<Rightarrow> api \<Rightarrow> json \<Rightarrow> json list \<Rightarrow> ustr list \<times> ustr list \<Rightarrow> py_error + ustr list \<times> ustr list"
where
  "scrape_kommuner L fetch fylke [] st = Inr st"
| "scrape_kommuner L fetch fylke (kommune # rest) (kommune_ids, krets_ids) =
     (case create_kommune_id L fylke kommune of
        Inl e \<Rightarrow> Inl e
      | Inr None \<Rightarrow> scrape_kommuner L fetch fylke rest (kommune_ids, krets_ids)
      | Inr (Some kommune_id) \<Rightarrow>
          if kommune_id \<noteq> [] \<and> kommune_id \<notin> set kommune_ids then
            (case scrape_kommune_krets L fetch fylke kommune krets_ids of
               Inl e \<Rightarrow> Inl e
             | Inr krets_ids' \<Rightarrow>
                 scrape_kommuner L fetch fylke rest (kommune_ids @ [kommune_id], krets_ids'))
          else scrape_kommuner L fetch fylke rest (kommune_ids, krets_ids))"

text \<open>What the loop over the counties does for a county that is new.\<close>

definition scrape_fylke_kommuner ::
  "pylib \<Rightarrow> api \<Rightarrow> json \<Rightarrow> ustr list \<times> ustr list \<Rightarrow> py_error + ustr list \<times> ustr list"
where
  "scrape_fylke_kommuner L fetch fylke st =
     (case subscript fylke (u ''href'') of
        Inl e \<Rightarrow> Inl e
      | Inr href \<Rightarrow>
          (case fetch (py_str (container_repr L) href) of
             None \<Rightarrow> Inr st
           | Some kommune_data \<Rightarrow>
               if \<not> truthy kommune_data then Inr st
               else
                 (case links_related kommune_data of
                    Inl e \<Rightarrow> Inl e
                  | Inr related \<Rightarrow> scrape_kommuner L fetch fylke related st)))"

fun scrape_fylker :: "pylib \<Rightarrow> api \<Rightarrow> json list \<Rightarrow> year_entities \<Rightarrow> py_error + year_entities" where
  "scrape_fylker L fetch [] ye = Inr ye"
| "scrape_fylker L fetch (fylke # rest) ye =
     (case create_fylke_id L fylke of
        Inl e \<Rightarrow> Inl e
      | Inr None \<Rightarrow> scrape_fylker L fetch rest ye
      | Inr (Some fylke_id) \<Rightarrow>
          if fylke_id \<noteq> [] \<and> fylke_id \<notin> set (ent_fylke ye) then
            (case scrape_fylke_kommuner L fetch fylke (ent_kommune ye, ent_krets ye) of
               Inl e \<Rightarrow> Inl e
             | Inr (kommune_ids, krets_ids) \<Rightarrow>
                 scrape_fylker L fetch rest
                   \<lparr>ent_fylke = ent_fylke ye @ [fylke_id], ent_kommune = kommune_ids,
                    ent_krets = krets_ids\<rparr>)
          else scrape_fylker L fetch rest ye)"

text \<open>\<open>self.entities[year] = value\<close>, and the body of the loop over the years.\<close>

fun set_year :: "ustr \<Rightarrow> year_entities \<Rightarrow> registry \<Rightarrow> registry" where
  "set_year year ye [] = [(year, ye)]"
| "set_year year ye ((y, old) # rest) =
     (if y = year then (y, ye) # rest else (y, old) # set_year year ye rest)"

definition empty_year :: year_entities where
  "empty_year = \<lparr>ent_fylke = [], ent_kommune = [], ent_krets = []\<rparr>"

definition scrape_year :: "pylib \<Rightarrow> api \<Rightarrow> ustr \<Rightarrow> registry \<Rightarrow> py_error + registry" where
  "scrape_year L fetch year entities =
     (let entities1 = (if map_of entities year = None then set_year year empty_year entities
                       else entities);
          ye = (case map_of entities1 year of Some ye \<Rightarrow> ye | None \<Rightarrow> empty_year)
      in case fetch (u ''/'' @ year @ u ''/st'') of
           None \<Rightarrow> Inr entities1
         | Some national_data \<Rightarrow>
             if \<not> truthy national_data then Inr entities1
             else
               (case links_related national_data of
                  Inl e \<Rightarrow> Inl e
                | Inr related \<Rightarrow>
                    (case scrape_fylker L fetch related ye of
                       Inl e \<Rightarrow> Inl e
                     | Inr ye' \<Rightarrow> Inr (set_year year ye' entities1))))"

fun scrape_years :: "pylib \<Rightarrow> api \<Rightarrow> ustr list \<Rightarrow> registry \<Rightarrow> py_error + registry" where
  "scrape_years L fetch [] entities = Inr entities"
| "scrape_years L fetch (year # rest) entities =
     (case scrape_year L fetch year entities of
        Inl e \<Rightarrow> Inl e
      | Inr entities' \<Rightarrow> scrape_years L fetch rest entities')"

text \<open>
  \<open>scrape_entities\<close>, on a scraper whose \<open>self.entities\<close> is \<open>entities\<close>: the \<open>try\<close> wraps the
  loop, and \<open>except Exception\<close> returns the empty dict.
\<close>

definition scrape_entities :: "pylib \<Rightarrow> api \<Rightarrow> ustr list \<Rightarrow> registry \<Rightarrow> registry" where
  "scrape_entities L fetch election_years entities =
     (case scrape_years L fetch election_years entities of Inl e \<Rightarrow> [] | Inr r \<Rightarrow> r)"

section \<open>monitor.py: loading the registry\<close>

text \<open>The registry as the JSON value \<open>json.dump\<close> writes and \<open>run\<close> reads.\<close>

definition ids_json :: "ustr list \<Rightarrow> json" where
  "ids_json ids = JArr (map JStr ids)"

definition registry_json :: "registry \<Rightarrow> json" where
  "registry_json r =
     JObj (map (\<lambda>(year, ye). (year, JObj [(u ''fylke'', ids_json (ent_fylke ye)),
                                             (u ''kommune'', ids_json (ent_kommune ye)),
                                             (u ''krets'', ids_json (ent_krets ye))])) r)"

text \<open>
  \<open>_load_entities\<close>: the registry it returns and the file system it leaves. The scraper is
  a new \<open>EntitiesScraper()\<close>, whose \<open>self.entities\<close> is empty. Only \<open>JSONDecodeError\<close> is
  caught while the file is read.
\<close>

definition load_entities :: "pylib \<Rightarrow> api \<Rightarrow> path \<Rightarrow> ustr list \<Rightarrow> fs \<Rightarrow> py_error + json \<times> fs" where
  "load_entities L fetch data_path election_years fs =
     (let config_path = path_div (path_div data_path (u ''config'')) (u ''entities.json'') in
      case mkdir_parents (path_parent config_path) fs of
        Inl e \<Rightarrow> Inl e
      | Inr fs1 \<Rightarrow>
          (case (if path_exists fs1 config_path
                 then (case read_json fs1 config_path of
                         Inl e \<Rightarrow> if e = JSONDecodeError then Inr (JObj []) else Inl e
                       | Inr v \<Rightarrow> Inr v)
                 else Inr (JObj [])) of
             Inl e \<Rightarrow> Inl e
           | Inr existing_entities \<Rightarrow>
               (let scraped_entities = scrape_entities L fetch election_years [] in
                if scraped_entities \<noteq> [] then
                  (case write_json config_path (registry_json scraped_entities) fs1 of
                     Inl e \<Rightarrow> Inl e
                   | Inr fs2 \<Rightarrow> Inr (registry_json scraped_entities, fs2))
                else Inr (existing_entities, fs1))))"

text \<open>
  The identifiers \<open>run\<close> reads for a year and a tier:
  \<open>entities.get(year, {}).get(tier, [])\<close>, an empty list where that raises.
\<close>

definition listed_ids :: "json \<Rightarrow> ustr \<Rightarrow> tier \<Rightarrow> json list" where
  "listed_ids entities year t =
     (case dict_get entities year (JObj []) of
        Inl e \<Rightarrow> []
      | Inr year_config \<Rightarrow>
          (case dict_get year_config (tier_name t) (JArr []) of
             Inl e \<Rightarrow> []
           | Inr listed \<Rightarrow> (case py_iter listed of Inl e \<Rightarrow> [] | Inr ids \<Rightarrow> ids)))"

text \<open>
  A persisted registry that knows two counties, an API that lists one of them with a
  municipality and a district, and an API of which every fetch fails.
\<close>

definition config_file :: path where
  "config_file = [u ''data'', u ''config'', u ''entities.json'']"

definition persisted_registry :: json where
  "persisted_registry =
     JObj [(u ''2021'', JObj [(u ''fylke'', JArr [JStr (u ''fylke-50-sor-trondelag''),
                                                  JStr (u ''fylke-03-oslo'')]),
                              (u ''kommune'', JArr [JStr (u ''kommune-03-0301-oslo'')]),
                              (u ''krets'', JArr [])])]"

definition persisted_store :: fs where
  "persisted_store =
     [([u ''data''], Dir), ([u ''data'', u ''config''], Dir),
      (config_file, File (Some persisted_registry))]"

definition related :: "json list \<Rightarrow> json" where
  "related xs = JObj [(u ''_links'', JObj [(u ''related'', JArr xs)])]"

definition trondelag_api :: api where
  "trondelag_api url =
     (if url = u ''/2021/st'' then Some (related [fylke50])
      else if url = u ''/2021/st/50'' then Some (related [kommune5001])
      else if url = u ''/2021/st/50/5001'' then Some (related [krets0001])
      else None)"

definition failing_api :: api where
  "failing_api url = None"

definition trondelag_registry :: json where
  "trondelag_registry =
     JObj [(u ''2021'', JObj [(u ''fylke'', JArr [JStr (u ''fylke-50-sor-trondelag'')]),
                              (u ''kommune'', JArr [JStr (u ''kommune-50-5001-trondheim'')]),
                              (u ''krets'', JArr [JStr (u ''krets-50-5001-0001-midtbyen-og-lade'')])])]"

definition skeleton_registry :: json where
  "skeleton_registry =
     JObj [(u ''2021'', JObj [(u ''fylke'', JArr []), (u ''kommune'', JArr []),
                              (u ''krets'', JArr [])])]"

section \<open>monitor.py: one entity polled again and again\<close>




definition snapshot_name :: "datetime \<Rightarrow> ustr" where
  "snapshot_name now = strftime now @ u ''.json''"











section \<open>cleanup.py: the newest snapshot\<close>








section \<open>Name normalisation is idempotent\<close>

lemma concat_singletons: "concat (map (\<lambda>i. [f i]) l) = map f l"
  by (induction l) auto

lemma str_lower_fixed:
  assumes "\<forall>d\<in>set s. lower_fixed T d"
  shows "str_lower T s = s"
proof -
  have "map (lower_at T s) [0..<length s] = map (\<lambda>i. [s ! i]) [0..<length s]"
    using assms by (auto simp: lower_fixed_def)
  then have "str_lower T s = concat (map (\<lambda>i. [s ! i]) [0..<length s])"
    unfolding str_lower_def by (rule arg_cong)
  also have "\<dots> = map ((!) s) [0..<length s]"
    by (rule concat_singletons)
  also have "\<dots> = s"
    by (rule map_nth)
  finally show ?thesis .
qed

lemma set_str_lower: "d \<in> set (str_lower T s) \<Longrightarrow> \<exists>i<length s. d \<in> set (lower_at T s i)"
  by (auto simp: str_lower_def)

lemma replace1_absent: "old \<notin> set s \<Longrightarrow> replace1 old new s = s"
  by (induction s) (auto simp: replace1_def)

lemma set_replace1: "set (replace1 old new s) \<subseteq> (set s - {old}) \<union> set new"
  by (induction s) (auto simp: replace1_def)

lemma apply_replacements_absent:
  "set s \<inter> replaced_chars = {} \<Longrightarrow> apply_replacements s = s"
  by (simp add: apply_replacements_def replacements_def replaced_chars_def replace1_absent)

lemma set_apply_replacements:
  "set (apply_replacements s) \<subseteq> (set s - replaced_chars) \<union> {97, 101, 111, 103, 45}"
proof -
  define s1 where "s1 = replace1 230 (u ''ae'') s"
  define s2 where "s2 = replace1 248 (u ''o'') s1"
  define s3 where "s3 = replace1 229 (u ''a'') s2"
  define s4 where "s4 = replace1 32 (u ''-'') s3"
  define s5 where "s5 = replace1 46 [] s4"
  define s6 where "s6 = replace1 44 [] s5"
  define s7 where "s7 = replace1 43 (u ''-og-'') s6"
  have e: "apply_replacements s = s7"
    by (simp add: apply_replacements_def replacements_def s1_def s2_def s3_def s4_def s5_def s6_def s7_def)
  have 1: "set s1 \<subseteq> (set s - {230}) \<union> {97, 101}"
    using set_replace1 [of 230 "u ''ae''" s] by (auto simp: s1_def u_def)
  have 2: "set s2 \<subseteq> (set s1 - {248}) \<union> {111}"
    using set_replace1 [of 248 "u ''o''" s1] by (auto simp: s2_def u_def)
  have 3: "set s3 \<subseteq> (set s2 - {229}) \<union> {97}"
    using set_replace1 [of 229 "u ''a''" s2] by (auto simp: s3_def u_def)
  have 4: "set s4 \<subseteq> (set s3 - {32}) \<union> {45}"
    using set_replace1 [of 32 "u ''-''" s3] by (auto simp: s4_def u_def)
  have 5: "set s5 \<subseteq> (set s4 - {46})"
    using set_replace1 [of 46 "[]" s4] by (auto simp: s5_def)
  have 6: "set s6 \<subseteq> (set s5 - {44})"
    using set_replace1 [of 44 "[]" s5] by (auto simp: s6_def)
  have 7: "set s7 \<subseteq> (set s6 - {43}) \<union> {45, 111, 103}"
    using set_replace1 [of 43 "u ''-og-''" s6] by (auto simp: s7_def u_def)
  show ?thesis unfolding e replaced_chars_def
    using 1 2 3 4 5 6 7 by blast
qed
lemma has_dd_iff: "has_dd s \<longleftrightarrow> (\<exists>xs ys. s = xs @ hyphen # hyphen # ys)"
proof (induction s rule: has_dd.induct)
  case (1 a b xs)
  show ?case
  proof
    assume "has_dd (a # b # xs)"
    then consider "a = hyphen \<and> b = hyphen" | "has_dd (b # xs)" by auto
    then show "\<exists>p q. a # b # xs = p @ hyphen # hyphen # q"
    proof cases
      case 1
      then have "a # b # xs = [] @ hyphen # hyphen # xs" by simp
      then show ?thesis by blast
    next
      case 2
      with "1.IH" obtain p q where "b # xs = p @ hyphen # hyphen # q" by blast
      then have "a # b # xs = (a # p) @ hyphen # hyphen # q" by simp
      then show ?thesis by blast
    qed
  next
    assume "\<exists>p q. a # b # xs = p @ hyphen # hyphen # q"
    then obtain p q where e: "a # b # xs = p @ hyphen # hyphen # q" by blast
    show "has_dd (a # b # xs)"
    proof (cases p)
      case Nil
      with e show ?thesis by simp
    next
      case (Cons x p')
      with e have "b # xs = p' @ hyphen # hyphen # q" by simp
      with "1.IH" have "has_dd (b # xs)" by blast
      then show ?thesis by simp
    qed
  qed
qed (auto simp: append_eq_Cons_conv)

lemma has_dd_infix: "has_dd m \<Longrightarrow> has_dd (p @ m @ q)"
proof -
  assume "has_dd m"
  then obtain xs ys where "m = xs @ hyphen # hyphen # ys" unfolding has_dd_iff by blast
  then have "p @ m @ q = (p @ xs) @ hyphen # hyphen # (ys @ q)" by simp
  then show ?thesis unfolding has_dd_iff by blast
qed

lemma set_replace_dd: "set (replace_dd s) \<subseteq> set s"
  by (induction s rule: replace_dd.induct) auto

lemma collapse_no_dd: "\<not> has_dd (collapse_hyphens s)"
  by (induction s rule: collapse_hyphens.induct) (simp add: collapse_hyphens.simps)

lemma collapse_id: "\<not> has_dd s \<Longrightarrow> collapse_hyphens s = s"
  by (simp add: collapse_hyphens.simps)

lemma set_collapse: "set (collapse_hyphens s) \<subseteq> set s"
proof (induction s rule: collapse_hyphens.induct)
  case (1 s)
  show ?case
  proof (cases "has_dd s")
    case True
    with 1 have "set (collapse_hyphens (replace_dd s)) \<subseteq> set (replace_dd s)" by simp
    with True set_replace_dd [of s] show ?thesis
      by (subst collapse_hyphens.simps) auto
  next
    case False
    then show ?thesis by (simp add: collapse_id)
  qed
qed

lemma rev_dropWhile_split: "xs = rev (dropWhile P (rev xs)) @ rev (takeWhile P (rev xs))"
  by (metis rev_append rev_rev_ident takeWhile_dropWhile_id)

lemma strip_infix: "\<exists>p q. s = p @ strip_hyphens s @ q"
proof -
  let ?P = "\<lambda>c. c = hyphen"
  let ?d = "dropWhile ?P s"
  have "?d = strip_hyphens s @ rev (takeWhile ?P (rev ?d))"
    unfolding strip_hyphens_def by (rule rev_dropWhile_split)
  moreover have "s = takeWhile ?P s @ ?d" by simp
  ultimately have "s = takeWhile ?P s @ strip_hyphens s @ rev (takeWhile ?P (rev ?d))" by simp
  then show ?thesis by blast
qed

lemma strip_no_dd: "\<not> has_dd s \<Longrightarrow> \<not> has_dd (strip_hyphens s)"
  using strip_infix [of s] has_dd_infix by metis

lemma set_strip: "set (strip_hyphens s) \<subseteq> set s"
  using strip_infix [of s] by (metis Un_upper1 Un_upper2 set_append subset_trans)

lemma strip_edges: "no_edge_hyphen (strip_hyphens s)"
proof (cases "strip_hyphens s = []")
  case True
  then show ?thesis by (simp add: no_edge_hyphen_def)
next
  case False
  let ?P = "\<lambda>c. c = hyphen"
  let ?d = "dropWhile ?P s"
  let ?e = "dropWhile ?P (rev ?d)"
  have r: "strip_hyphens s = rev ?e" by (simp add: strip_hyphens_def)
  with False have ne: "?e \<noteq> []" by simp
  then have "\<not> ?P (hd ?e)" by (rule hd_dropWhile)
  with ne have l: "last (strip_hyphens s) \<noteq> hyphen" by (simp add: r last_rev)
  have d: "?d = strip_hyphens s @ rev (takeWhile ?P (rev ?d))"
    unfolding strip_hyphens_def by (rule rev_dropWhile_split)
  with False have dne: "?d \<noteq> []" by (metis Nil_is_append_conv)
  then have "\<not> ?P (hd ?d)" by (rule hd_dropWhile)
  moreover from d False have "hd ?d = hd (strip_hyphens s)" by (metis hd_append2)
  ultimately have "hd (strip_hyphens s) \<noteq> hyphen" by simp
  with l show ?thesis by (simp add: no_edge_hyphen_def)
qed

lemma strip_id: "no_edge_hyphen s \<Longrightarrow> strip_hyphens s = s"
proof (cases s)
  case Nil
  then show ?thesis by (simp add: strip_hyphens_def)
next
  case (Cons a t)
  assume "no_edge_hyphen s"
  with Cons have h: "a \<noteq> hyphen" and l: "last s \<noteq> hyphen" by (auto simp: no_edge_hyphen_def)
  from h Cons have 1: "dropWhile (\<lambda>c. c = hyphen) s = s" by simp
  from Cons have "rev s \<noteq> []" by simp
  moreover from Cons have "hd (rev s) = last s" by (metis hd_rev list.distinct(1))
  with l have "hd (rev s) \<noteq> hyphen" by simp
  ultimately have "dropWhile (\<lambda>c. c = hyphen) (rev s) = rev s" by (cases "rev s") auto
  with 1 show ?thesis by (simp add: strip_hyphens_def)
qed

lemma lower_stable_ascii: "lower_stable ascii_tables"
  by (auto simp: lower_stable_def lower_fixed_def ascii_tables_def u_def)

lemma normalize_name_example:
  "normalize_name ascii_tables (u ''Nord-Trondelag  +  Oslo.'') = u ''nord-trondelag-og-oslo''"
  by code_simp

text \<open>
  Claim C10. Normalising a normalised name changes nothing:
  \<open>_normalize_name(_normalize_name(s)) = _normalize_name(s)\<close> for every string \<open>s\<close>, for
  every \<open>isalnum\<close> table and every lower-casing whose output is stable under lower-casing.
\<close>

theorem normalize_name_idempotent:
  assumes "lower_stable T"
  shows "normalize_name T (normalize_name T s) = normalize_name T s"
proof -
  define l where "l = str_lower T s"
  define a where "a = apply_replacements l"
  define f where "f = filter (\<lambda>c. is_alnum T c \<or> c = hyphen) a"
  define c where "c = collapse_hyphens f"
  define r where "r = strip_hyphens c"
  have r: "normalize_name T s = r"
    by (simp add: normalize_name_def l_def a_def f_def c_def r_def)
  have sub: "set r \<subseteq> set f"
    using set_strip [of c] set_collapse [of f] by (auto simp: r_def c_def)
  have lfix: "lower_fixed T d" if "d \<in> set l" for d
    using that assms set_str_lower [of d T s] unfolding l_def lower_stable_def by blast
  have afix: "lower_fixed T d" if "d \<in> set a" for d
  proof -
    from that set_apply_replacements [of l]
    have "d \<in> set l \<or> d \<in> {97, 101, 111, 103, hyphen}" by (auto simp: a_def)
    then show ?thesis using lfix assms by (auto simp: lower_stable_def u_def)
  qed
  have arep: "set a \<inter> replaced_chars = {}"
    using set_apply_replacements [of l] by (auto simp: a_def replaced_chars_def)
  have 1: "str_lower T r = r"
    using sub afix by (intro str_lower_fixed) (auto simp: f_def)
  have 2: "apply_replacements r = r"
    using sub arep by (intro apply_replacements_absent) (auto simp: f_def)
  have 3: "filter (\<lambda>c. is_alnum T c \<or> c = hyphen) r = r"
    using sub by (auto simp: f_def filter_id_conv)
  have "\<not> has_dd r" unfolding r_def c_def by (intro strip_no_dd collapse_no_dd)
  then have 4: "collapse_hyphens r = r" by (rule collapse_id)
  have 5: "strip_hyphens r = r" unfolding r_def by (intro strip_id strip_edges)
  show ?thesis unfolding r
    by (simp add: normalize_name_def 1 2 3 4 5)
qed

theorem normalize_name_idempotent_witness:
  "lower_stable ascii_tables \<and>
   normalize_name ascii_tables (normalize_name ascii_tables (u ''Nord-Trondelag  +  Oslo.''))
     = u ''nord-trondelag-og-oslo''"
  using normalize_name_idempotent [OF lower_stable_ascii, of "u ''Nord-Trondelag  +  Oslo.''"]
    lower_stable_ascii normalize_name_example by simp

section \<open>The code path of an identifier\<close>

lemma split_nonempty: "split c s \<noteq> []"
  by (induction s) (auto split: list.splits)

lemma split_piece: "c \<notin> set p \<Longrightarrow> split c (p @ c # rest) = p # split c rest"
  by (induction p) (auto split: list.splits)

lemma split_free: "c \<notin> set p \<Longrightarrow> split c p = [p]"
  by (induction p) (auto split: list.splits)

lemma split_pieces_free: "p \<in> set (split c s) \<Longrightarrow> c \<notin> set p"
proof (induction s arbitrary: p)
  case Nil
  then show ?case by simp
next
  case (Cons x s)
  show ?case
  proof (cases "x = c")
    case True
    with Cons show ?thesis by auto
  next
    case False
    obtain q qs where q: "split c s = q # qs"
      using split_nonempty [of c s] by (cases "split c s") auto
    with False Cons.prems have "p = x # q \<or> p \<in> set qs" by auto
    then show ?thesis
    proof
      assume "p = x # q"
      moreover from q Cons.IH [of q] have "c \<notin> set q" by simp
      ultimately show ?thesis using False by auto
    next
      assume "p \<in> set qs"
      with q Cons.IH [of p] show ?thesis by simp
    qed
  qed
qed

lemma split_join:
  "ps \<noteq> [] \<Longrightarrow> \<forall>p\<in>set ps. c \<notin> set p \<Longrightarrow> split c (join [c] ps) = ps"
proof (induction ps)
  case Nil
  then show ?case by simp
next
  case (Cons p ps)
  show ?case
  proof (cases ps)
    case Nil
    with Cons.prems show ?thesis by (simp add: split_free)
  next
    case (Cons q qs)
    with Cons.prems Cons.IH have "split c (join [c] (q # qs)) = q # qs" by simp
    moreover from Cons.prems have "c \<notin> set p" by simp
    ultimately show ?thesis using Cons by (simp add: split_piece)
  qed
qed

lemma id_components_built:
  assumes "hyphen \<notin> set kind" and "\<forall>p\<in>set codes. hyphen \<notin> set p"
  shows "id_components (kind @ hyphen # concat (map (\<lambda>p. p @ [hyphen]) codes) @ slug)
           = kind # codes @ butlast (split hyphen slug)"
proof -
  have s: "split hyphen (concat (map (\<lambda>p. p @ [hyphen]) codes) @ slug) = codes @ split hyphen slug"
    using assms(2) by (induction codes) (auto simp: split_piece)
  have "split hyphen (kind @ hyphen # concat (map (\<lambda>p. p @ [hyphen]) codes) @ slug)
          = kind # codes @ split hyphen slug"
    using assms(1) s by (simp add: split_piece)
  then have b: "butlast (split hyphen (kind @ hyphen # concat (map (\<lambda>p. p @ [hyphen]) codes) @ slug))
          = kind # codes @ butlast (split hyphen slug)"
    using split_nonempty [of hyphen slug] by (simp add: butlast_append)
  have "\<forall>p\<in>set (kind # codes @ butlast (split hyphen slug)). hyphen \<notin> set p"
    using assms split_pieces_free [of _ hyphen slug] by (auto dest: in_set_butlastD)
  then have "split hyphen (join [hyphen] (kind # codes @ butlast (split hyphen slug)))
          = kind # codes @ butlast (split hyphen slug)"
    by (intro split_join) auto
  then show ?thesis
    unfolding id_components_def Let_def b by (simp add: u_def)
qed

lemma fylke_url:
  assumes "hyphen \<notin> set fnr"
  shows "entity_url Fylke (u ''fylke-'' @ fnr @ u ''-'' @ slug) year
           = Inr (u ''/'' @ year @ u ''/st/'' @ fnr)"
proof -
  have "id_components (u ''fylke'' @ hyphen # concat (map (\<lambda>p. p @ [hyphen]) [fnr]) @ slug)
          = u ''fylke'' # [fnr] @ butlast (split hyphen slug)"
    using assms by (intro id_components_built) (auto simp: u_def)
  then have "id_components (u ''fylke-'' @ fnr @ u ''-'' @ slug)
          = u ''fylke'' # fnr # butlast (split hyphen slug)"
    by (simp add: u_def)
  then show ?thesis by (simp add: index_def)
qed


lemma kommune_url:
  assumes "hyphen \<notin> set fnr" and "hyphen \<notin> set knr"
  shows "entity_url Kommune (u ''kommune-'' @ fnr @ u ''-'' @ knr @ u ''-'' @ slug) year
           = Inr (u ''/'' @ year @ u ''/st/'' @ fnr @ u ''/'' @ knr)"
proof -
  have "id_components (u ''kommune'' @ hyphen # concat (map (\<lambda>p. p @ [hyphen]) [fnr, knr]) @ slug)
          = u ''kommune'' # [fnr, knr] @ butlast (split hyphen slug)"
    using assms by (intro id_components_built) (auto simp: u_def)
  then have "id_components (u ''kommune-'' @ fnr @ u ''-'' @ knr @ u ''-'' @ slug)
          = u ''kommune'' # fnr # knr # butlast (split hyphen slug)"
    by (simp add: u_def)
  then show ?thesis by (simp add: index_def)
qed

lemma krets_url:
  assumes "hyphen \<notin> set fnr" and "hyphen \<notin> set knr" and "hyphen \<notin> set cnr"
  shows "entity_url Krets (u ''krets-'' @ fnr @ u ''-'' @ knr @ u ''-'' @ cnr @ u ''-'' @ slug) year
           = Inr (u ''/'' @ year @ u ''/st/'' @ fnr @ u ''/'' @ knr @ u ''/'' @ cnr)"
proof -
  have "id_components (u ''krets'' @ hyphen # concat (map (\<lambda>p. p @ [hyphen]) [fnr, knr, cnr]) @ slug)
          = u ''krets'' # [fnr, knr, cnr] @ butlast (split hyphen slug)"
    using assms by (intro id_components_built) (auto simp: u_def)
  then have "id_components (u ''krets-'' @ fnr @ u ''-'' @ knr @ u ''-'' @ cnr @ u ''-'' @ slug)
          = u ''krets'' # fnr # knr # cnr # butlast (split hyphen slug)"
    by (simp add: u_def)
  then show ?thesis by (simp add: index_def)
qed

lemma create_fylke_id_shape:
  assumes "create_fylke_id L fylke = Inr (Some i)" and "subscript fylke (u ''nr'') = Inr nr"
  shows "\<exists>slug. i = u ''fylke-'' @ py_str (container_repr L) nr @ u ''-'' @ slug"
  using assms
  by (auto simp: create_fylke_id_def catch_key_index_def split: sum.splits if_splits)

lemma create_kommune_id_shape:
  assumes "create_kommune_id L fylke kommune = Inr (Some i)"
    and "subscript fylke (u ''nr'') = Inr fnr" and "subscript kommune (u ''nr'') = Inr knr"
  shows "\<exists>slug. i = u ''kommune-'' @ py_str (container_repr L) fnr @ u ''-''
                      @ py_str (container_repr L) knr @ u ''-'' @ slug"
  using assms
  by (auto simp: create_kommune_id_def catch_key_index_def split: sum.splits if_splits)

lemma create_krets_id_shape:
  assumes "create_krets_id L fylke kommune krets = Inr (Some i)"
    and "subscript fylke (u ''nr'') = Inr fnr" and "subscript kommune (u ''nr'') = Inr knr"
    and "subscript krets (u ''nr'') = Inr cnr"
  shows "\<exists>slug. i = u ''krets-'' @ py_str (container_repr L) fnr @ u ''-''
                      @ py_str (container_repr L) knr @ u ''-''
                      @ py_str (container_repr L) cnr @ u ''-'' @ slug"
  using assms
  by (auto simp: create_krets_id_def catch_key_index_def split: sum.splits if_splits)

text \<open>
  Claim C9. For the identifiers the discoverer builds (\<open>fylke-{nr}-{slug}\<close>,
  \<open>kommune-{fylke_nr}-{kommune_nr}-{slug}\<close>, \<open>krets-{fylke_nr}-{kommune_nr}-{krets_nr}-{slug}\<close>)
  from codes that hold no hyphen, as numeric codes do, the Monitor's endpoint is the
  template of the tier filled with exactly these codes, whatever the slug is, hyphens in
  it included.
\<close>

theorem code_path_roundtrip:
  assumes f: "subscript fylke (u ''nr'') = Inr fnr"
    and k: "subscript kommune (u ''nr'') = Inr knr"
    and c: "subscript krets (u ''nr'') = Inr cnr"
    and ff: "hyphen \<notin> set (py_str (container_repr L) fnr)"
    and kf: "hyphen \<notin> set (py_str (container_repr L) knr)"
    and cf: "hyphen \<notin> set (py_str (container_repr L) cnr)"
  shows "(\<forall>i. create_fylke_id L fylke = Inr (Some i) \<longrightarrow>
            entity_url Fylke i year
              = Inr (u ''/'' @ year @ u ''/st/'' @ py_str (container_repr L) fnr)) \<and>
         (\<forall>i. create_kommune_id L fylke kommune = Inr (Some i) \<longrightarrow>
            entity_url Kommune i year
              = Inr (u ''/'' @ year @ u ''/st/'' @ py_str (container_repr L) fnr
                     @ u ''/'' @ py_str (container_repr L) knr)) \<and>
         (\<forall>i. create_krets_id L fylke kommune krets = Inr (Some i) \<longrightarrow>
            entity_url Krets i year
              = Inr (u ''/'' @ year @ u ''/st/'' @ py_str (container_repr L) fnr
                     @ u ''/'' @ py_str (container_repr L) knr
                     @ u ''/'' @ py_str (container_repr L) cnr))"
proof (intro conjI allI impI)
  fix i assume "create_fylke_id L fylke = Inr (Some i)"
  from create_fylke_id_shape [OF this f] obtain slug
    where "i = u ''fylke-'' @ py_str (container_repr L) fnr @ u ''-'' @ slug" by blast
  then show "entity_url Fylke i year
      = Inr (u ''/'' @ year @ u ''/st/'' @ py_str (container_repr L) fnr)"
    using fylke_url [OF ff] by simp
next
  fix i assume "create_kommune_id L fylke kommune = Inr (Some i)"
  from create_kommune_id_shape [OF this f k] obtain slug
    where "i = u ''kommune-'' @ py_str (container_repr L) fnr @ u ''-''
                 @ py_str (container_repr L) knr @ u ''-'' @ slug" by blast
  then show "entity_url Kommune i year
      = Inr (u ''/'' @ year @ u ''/st/'' @ py_str (container_repr L) fnr
             @ u ''/'' @ py_str (container_repr L) knr)"
    using kommune_url [OF ff kf] by simp
next
  fix i assume "create_krets_id L fylke kommune krets = Inr (Some i)"
  from create_krets_id_shape [OF this f k c] obtain slug
    where "i = u ''krets-'' @ py_str (container_repr L) fnr @ u ''-''
                 @ py_str (container_repr L) knr @ u ''-''
                 @ py_str (container_repr L) cnr @ u ''-'' @ slug" by blast
  then show "entity_url Krets i year
      = Inr (u ''/'' @ year @ u ''/st/'' @ py_str (container_repr L) fnr
             @ u ''/'' @ py_str (container_repr L) knr
             @ u ''/'' @ py_str (container_repr L) cnr)"
    using krets_url [OF ff kf cf] by simp
qed

lemma create_fylke_id_example: "create_fylke_id ascii_lib fylke50 = Inr (Some (u ''fylke-50-sor-trondelag''))"
  by code_simp
lemma create_kommune_id_example: "create_kommune_id ascii_lib fylke50 kommune5001 = Inr (Some (u ''kommune-50-5001-trondheim''))"
  by code_simp
lemma create_krets_id_example: "create_krets_id ascii_lib fylke50 kommune5001 krets0001
   = Inr (Some (u ''krets-50-5001-0001-midtbyen-og-lade''))"
  by code_simp

theorem code_path_roundtrip_witness:
  "create_fylke_id ascii_lib fylke50 = Inr (Some (u ''fylke-50-sor-trondelag'')) \<and>
   entity_url Fylke (u ''fylke-50-sor-trondelag'') (u ''2021'') = Inr (u ''/2021/st/50'') \<and>
   create_kommune_id ascii_lib fylke50 kommune5001 = Inr (Some (u ''kommune-50-5001-trondheim'')) \<and>
   entity_url Kommune (u ''kommune-50-5001-trondheim'') (u ''2021'') = Inr (u ''/2021/st/50/5001'') \<and>
   create_krets_id ascii_lib fylke50 kommune5001 krets0001
     = Inr (Some (u ''krets-50-5001-0001-midtbyen-og-lade'')) \<and>
   entity_url Krets (u ''krets-50-5001-0001-midtbyen-og-lade'') (u ''2021'')
     = Inr (u ''/2021/st/50/5001/0001'')"
proof -
  have f: "subscript fylke50 (u ''nr'') = Inr (JStr (u ''50''))" by (simp add: fylke50_def u_def)
  have k: "subscript kommune5001 (u ''nr'') = Inr (JStr (u ''5001''))" by (simp add: kommune5001_def u_def)
  have c: "subscript krets0001 (u ''nr'') = Inr (JStr (u ''0001''))" by (simp add: krets0001_def u_def)
  have ff: "hyphen \<notin> set (py_str (container_repr ascii_lib) (JStr (u ''50'')))" by (simp add: u_def)
  have kf: "hyphen \<notin> set (py_str (container_repr ascii_lib) (JStr (u ''5001'')))" by (simp add: u_def)
  have cf: "hyphen \<notin> set (py_str (container_repr ascii_lib) (JStr (u ''0001'')))" by (simp add: u_def)
  show ?thesis
    using code_path_roundtrip [OF f k c ff kf cf, of "u ''2021''"] create_fylke_id_example create_kommune_id_example create_krets_id_example
    by (simp add: u_def)
qed

section \<open>The polling loop and the election years\<close>

lemma schedules_pos: "0 < schedules t"
  by (cases t) auto

lemma poll_nasjonalt_not_due:
  "poll_nasjonalt proc t y (lr, s) = Inr (lr', s') \<Longrightarrow>
   \<not> due lr' t Nasjonalt \<and> (\<forall>x. x \<noteq> Nasjonalt \<longrightarrow> lr' x = lr x)"
  by (auto simp: poll_nasjonalt_def due_def split: if_splits sum.splits)

lemma poll_tier_not_due:
  "poll_tier proc cfg t y x (lr, s) = Inr (lr', s') \<Longrightarrow>
   \<not> due lr' t x \<and> (\<forall>z. z \<noteq> x \<longrightarrow> lr' z = lr z)"
  using schedules_pos [of x]
  by (auto simp: poll_tier_def due_def split: if_splits sum.splits)

lemma due_cong: "lr' x = lr x \<Longrightarrow> due lr' t x = due lr t x"
  by (simp add: due_def)

lemma poll_year_nothing_due:
  assumes "poll_year proc entities t y (lr, s) = Inr (lr', s')"
  shows "\<not> due lr' t x"
proof -
  from assms obtain cfg lr1 s1 lr2 s2 lr3 s3 where
    1: "poll_nasjonalt proc t y (lr, s) = Inr (lr1, s1)" and
    2: "poll_tier proc cfg t y Fylke (lr1, s1) = Inr (lr2, s2)" and
    3: "poll_tier proc cfg t y Kommune (lr2, s2) = Inr (lr3, s3)" and
    4: "poll_tier proc cfg t y Krets (lr3, s3) = Inr (lr', s')"
    by (auto simp: poll_year_def split: sum.splits)
  note a = poll_nasjonalt_not_due [OF 1] and b = poll_tier_not_due [OF 2]
    and c = poll_tier_not_due [OF 3] and d = poll_tier_not_due [OF 4]
  show ?thesis
  proof (cases x)
    case Nasjonalt
    with a b c d have "lr' x = lr1 x" by simp
    with a Nasjonalt show ?thesis by (simp add: due_def)
  next
    case Fylke
    with b c d have "lr' x = lr2 x" by simp
    with b Fylke show ?thesis by (simp add: due_def)
  next
    case Kommune
    with c d have "lr' x = lr3 x" by simp
    with c Kommune show ?thesis by (simp add: due_def)
  next
    case Krets
    with d show ?thesis by simp
  qed
qed

lemma poll_year_idle:
  assumes "\<forall>x. \<not> due lr t x" and "dict_get entities y (JObj []) = Inr cfg"
  shows "poll_year proc entities t y (lr, s) = Inr (lr, s)"
  using assms by (simp add: poll_year_def poll_nasjonalt_def poll_tier_def)

lemma dict_get_total: "dict_get entities y d = Inr cfg \<Longrightarrow> \<exists>cfg'. dict_get entities y' d = Inr cfg'"
  by (cases entities) (auto split: option.splits)

lemma poll_years_idle:
  assumes "\<forall>x. \<not> due lr t x" and "dict_get entities y (JObj []) = Inr cfg"
  shows "poll_years proc entities t ys (lr, s) = Inr (lr, s)"
proof (induction ys)
  case Nil
  show ?case by simp
next
  case (Cons y' ys)
  from dict_get_total [OF assms(2)] obtain cfg' where "dict_get entities y' (JObj []) = Inr cfg'"
    by blast
  with assms(1) have "poll_year proc entities t y' (lr, s) = Inr (lr, s)" by (rule poll_year_idle)
  with Cons show ?case by simp
qed

text \<open>
  Within one pass the reading \<open>current_time\<close> is the same for every year, and a tier that
  was due is stamped with it while the first year is handled. So no tier is due for the
  years that follow: a pass does for the whole list what it does for the first year.
\<close>

lemma later_years_never_polled:
  "poll_years proc entities t (y # ys) st = poll_year proc entities t y st"
proof (cases "poll_year proc entities t y st")
  case (Inl e)
  then show ?thesis by simp
next
  case (Inr st')
  obtain lr s where st: "st = (lr, s)" by (cases st)
  obtain lr' s' where st': "st' = (lr', s')" by (cases st')
  from Inr st st' have p: "poll_year proc entities t y (lr, s) = Inr (lr', s')" by simp
  have nd: "\<forall>x. \<not> due lr' t x" using poll_year_nothing_due [OF p] by simp
  from p obtain cfg where "dict_get entities y (JObj []) = Inr cfg"
    by (auto simp: poll_year_def split: sum.splits)
  with nd have "poll_years proc entities t ys (lr', s') = Inr (lr', s')" by (rule poll_years_idle)
  with Inr st' show ?thesis by simp
qed

text \<open>
  Claim C3. All four tiers are due (nothing was polled before), the election years are
  2021 and 2025, and each has a county, a municipality and a district: the pass calls
  \<open>process_entity\<close> for the entities of 2021 and for none of 2025.
\<close>

theorem only_first_year_polled: "map_sum id snd (poll_years record_call two_year_registry 1700000000 [u ''2021'', u ''2025''] (Map.empty, []))
  = Inr [(Nasjonalt, u ''norge'', u ''2021''), (Fylke, u ''fylke-03-oslo'', u ''2021''),
         (Kommune, u ''kommune-03-0301-oslo'', u ''2021''), (Krets, u ''krets-03-0301-0001-sentrum'', u ''2021'')]"
  by code_simp

section \<open>Retention\<close>

text \<open>
  Outside the election months every tier is under \<open>'all'\<close> or \<open>'latest'\<close>, and
  \<open>should_retain_snapshot\<close> answers \<open>True\<close> for both: the cleanup of an entity deletes
  nothing, whatever its directory holds.
\<close>

lemma retained_when_inactive:
  "should_retain_snapshot digits now snapshot t False = Inr True"
  by (cases t) (auto simp: should_retain_snapshot_def split: sum.splits)

lemma remove_unretained_inactive:
  "remove_unretained digits now t False snaps fs = (fs, None)"
  by (induction snaps) (auto simp: retained_when_inactive)

lemma cleanup_entity_inactive:
  "\<not> is_election_active now \<Longrightarrow> cleanup_entity digits now entity_path t fs = (fs, None)"
  by (simp add: cleanup_entity_def Let_def remove_unretained_inactive)





















































lemma oslo_five_snapshots: "length (get_snapshots oslo_store oslo_dir) = 5"
  by code_simp

lemma oslo_snapshots_parse:
  "list_all (\<lambda>f. parseable digits (path_name f)) (get_snapshots oslo_store oslo_dir)"
  by code_simp

lemma march_policy: "retention_periods (is_election_active march_2022) Fylke = KeepLatest"
  by code_simp

lemma oslo_march_cleanup: "cleanup_entity digits march_2022 oslo_dir Fylke oslo_store = (oslo_store, None)"
  by code_simp

text \<open>
  Claim C2. Five snapshots with well-formed names in the directory of a county, a clock
  reading in March, the policy \<open>'latest'\<close>: \<open>cleanup_entity\<close> leaves the file system as it
  is, all five snapshots included.
\<close>

theorem keep_latest_deletes_nothing:
  "length (get_snapshots oslo_store oslo_dir) = 5 \<and>
   list_all (\<lambda>f. parseable digits (path_name f)) (get_snapshots oslo_store oslo_dir) \<and>
   retention_periods (is_election_active march_2022) Fylke = KeepLatest \<and>
   cleanup_entity digits march_2022 oslo_dir Fylke oslo_store = (oslo_store, None)"
  using oslo_five_snapshots oslo_snapshots_parse march_policy oslo_march_cleanup
  by (intro conjI)


section \<open>The districts and the sweep\<close>

lemma empty_disk_initialised: "init_directories [u ''data''] [u ''2021''] [] = Inr store_initial"
  by code_simp

lemma sentrum_first_poll:
  "process_entity (api_serving (u ''/2021/st/03/0301/0001'') (votes 10)) sept_13_2021
     [u ''data''] Krets sentrum_id (u ''2021'') store_initial = Inr store_first"
  by code_simp

lemma sentrum_second_poll:
  "process_entity (api_serving (u ''/2021/st/03/0301/0001'') (votes 25)) sept_14_2021
     [u ''data''] Krets sentrum_id (u ''2021'') store_first = Inr store_second"
  by code_simp

lemma sentrum_dir_written: "entity_dir [u ''data''] Krets sentrum_id (u ''2021'') = sentrum_dir"
  by code_simp

lemma sentrum_not_listed: "swept_dirs store_second [u ''data'', u ''2021''] Krets = []"
  by code_simp

lemma sentrum_run_unchanged: "cleanup_run digits september_2022 [u ''data''] store_second = (store_second, None)"
  by code_simp

lemma sentrum_if_swept:
  "cleanup_entity digits september_2022 sentrum_dir Krets store_second
     = (remove_entry (sentrum_dir @ [u ''2021-09-13__2100.json'']) store_second, None)"
  by code_simp

text \<open>
  Claim C4. A Monitor on an empty disk creates its directories and saves two snapshots of
  a district, which go to \<open>data/2021/krets/{id}\<close>. A year later, in an election month
  (districts are kept 30 days), a run of the Retention Manager lists no district
  directory (it globs \<open>data/2021/kommune/krets\<close>) and leaves the store as it is;
  \<open>cleanup_entity\<close> on the directory the Monitor wrote would have removed the older
  snapshot.
\<close>

theorem krets_directories_not_swept:
  "init_directories [u ''data''] [u ''2021''] [] = Inr store_initial \<and>
   process_entity (api_serving (u ''/2021/st/03/0301/0001'') (votes 10)) sept_13_2021
     [u ''data''] Krets sentrum_id (u ''2021'') store_initial = Inr store_first \<and>
   process_entity (api_serving (u ''/2021/st/03/0301/0001'') (votes 25)) sept_14_2021
     [u ''data''] Krets sentrum_id (u ''2021'') store_first = Inr store_second \<and>
   entity_dir [u ''data''] Krets sentrum_id (u ''2021'') = sentrum_dir \<and>
   swept_dirs store_second [u ''data'', u ''2021''] Krets = [] \<and>
   cleanup_run digits september_2022 [u ''data''] store_second = (store_second, None) \<and>
   cleanup_entity digits september_2022 sentrum_dir Krets store_second
     = (remove_entry (sentrum_dir @ [u ''2021-09-13__2100.json'']) store_second, None)"
  using empty_disk_initialised sentrum_first_poll sentrum_second_poll sentrum_dir_written
    sentrum_not_listed sentrum_run_unchanged sentrum_if_swept
  by (intro conjI)

section \<open>The registry at startup\<close>

lemma oslo_was_persisted:
  "JStr (u ''fylke-03-oslo'') \<in> set (listed_ids persisted_registry (u ''2021'') Fylke)"
  by code_simp

lemma persisted_file_read: "read_json persisted_store config_file = Inr persisted_registry"
  by code_simp

lemma trondelag_discovered:
  "registry_json (scrape_entities ascii_lib trondelag_api [u ''2021''] []) = trondelag_registry"
  by code_simp

lemma trondelag_returned:
  "map_sum id fst (load_entities ascii_lib trondelag_api [u ''data''] [u ''2021''] persisted_store)
     = Inr trondelag_registry"
  by code_simp

lemma trondelag_written:
  "map_sum id (\<lambda>r. read_json (snd r) config_file)
     (load_entities ascii_lib trondelag_api [u ''data''] [u ''2021''] persisted_store)
     = Inr (Inr trondelag_registry)"
  by code_simp

lemma trondelag_listed:
  "listed_ids trondelag_registry (u ''2021'') Fylke = [JStr (u ''fylke-50-sor-trondelag'')]"
  by code_simp

text \<open>
  Claim C1. The registry file lists the counties \<open>fylke-50-sor-trondelag\<close> and
  \<open>fylke-03-oslo\<close> for 2021; discovery succeeds and finds the first of them. The registry
  \<open>_load_entities\<close> returns, and the file it rewrites, hold what discovery found and no
  longer \<open>fylke-03-oslo\<close>.
\<close>

theorem persisted_ids_lost:
  "JStr (u ''fylke-03-oslo'') \<in> set (listed_ids persisted_registry (u ''2021'') Fylke) \<and>
   read_json persisted_store config_file = Inr persisted_registry \<and>
   registry_json (scrape_entities ascii_lib trondelag_api [u ''2021''] []) = trondelag_registry \<and>
   map_sum id fst (load_entities ascii_lib trondelag_api [u ''data''] [u ''2021''] persisted_store)
     = Inr trondelag_registry \<and>
   map_sum id (\<lambda>r. read_json (snd r) config_file)
     (load_entities ascii_lib trondelag_api [u ''data''] [u ''2021''] persisted_store)
     = Inr (Inr trondelag_registry) \<and>
   listed_ids trondelag_registry (u ''2021'') Fylke = [JStr (u ''fylke-50-sor-trondelag'')]"
  using oslo_was_persisted persisted_file_read trondelag_discovered trondelag_returned
    trondelag_written trondelag_listed
  by (intro conjI)

lemma nothing_discovered:
  "scrape_entities ascii_lib failing_api [u ''2021''] [] = [(u ''2021'', empty_year)]"
  by code_simp

lemma skeleton_returned:
  "map_sum id fst (load_entities ascii_lib failing_api [u ''data''] [u ''2021''] persisted_store)
     = Inr skeleton_registry"
  by code_simp

lemma skeleton_written:
  "map_sum id (\<lambda>r. read_json (snd r) config_file)
     (load_entities ascii_lib failing_api [u ''data''] [u ''2021''] persisted_store)
     = Inr (Inr skeleton_registry)"
  by code_simp

lemma skeleton_lists_nothing: "listed_ids skeleton_registry (u ''2021'') Fylke = []"
  by code_simp

text \<open>
  Claim C8. Every fetch fails. \<open>scrape_entities\<close> raises nothing, and what it returns is
  not the empty dict: it holds the year with three empty lists. \<open>_load_entities\<close> takes
  that for a success, returns it and writes it over the registry file, which held two
  counties.
\<close>

theorem total_failure_overwrites:
  "scrape_entities ascii_lib failing_api [u ''2021''] [] = [(u ''2021'', empty_year)] \<and>
   read_json persisted_store config_file = Inr persisted_registry \<and>
   map_sum id fst (load_entities ascii_lib failing_api [u ''data''] [u ''2021''] persisted_store)
     = Inr skeleton_registry \<and>
   map_sum id (\<lambda>r. read_json (snd r) config_file)
     (load_entities ascii_lib failing_api [u ''data''] [u ''2021''] persisted_store)
     = Inr (Inr skeleton_registry) \<and>
   listed_ids skeleton_registry (u ''2021'') Fylke = []"
  using nothing_discovered persisted_file_read skeleton_returned skeleton_written
    skeleton_lists_nothing
  by (intro conjI)

section \<open>The snapshots of one entity\<close>









lemma votes_truthy: "truthy (votes 10) \<and> truthy (votes 25)"
  by (simp add: votes_def)












lemma digits_of_nonempty: "digits_of n \<noteq> []"
  by (subst digits_of.simps) simp




lemma snapshot_name_inj: "snapshot_name a = snapshot_name b \<longleftrightarrow> strftime a = strftime b"
  by (simp add: snapshot_name_def)































text \<open>A poll whose fetch fails, or brings nothing new, leaves the store as it is.\<close>

lemma failed_poll_changes_nothing:
  assumes "entity_url entity_type entity_id year = Inr url"
    and "fetch url = None \<or> (\<exists>d. fetch url = Some d \<and> \<not> truthy d)"
  shows "process_entity fetch now data_path entity_type entity_id year fs = Inr fs"
  using assms by (auto simp: process_entity_def Let_def)

lemma unchanged_poll_changes_nothing:
  assumes "entity_url entity_type entity_id year = Inr url"
    and "fetch url = Some d"
    and "path_exists fs (latest_link_of (entity_dir data_path entity_type entity_id year))"
    and "is_symlink fs (latest_link_of (entity_dir data_path entity_type entity_id year))"
    and "read_json fs (latest_link_of (entity_dir data_path entity_type entity_id year)) = Inr previous"
    and "\<not> has_meaningful_changes previous d"
  shows "process_entity fetch now data_path entity_type entity_id year fs = Inr fs"
  using assms by (auto simp: process_entity_def Let_def)









end
